theory Spec2Isabelle
  imports Complex_Main "HOL-Library.Sublist" "HOL-Library.AList" "HOL-Library.Word"
begin

section \<open>JavaScript values used by the plugin\<close>

text \<open>
  A JavaScript string is a sequence of 16-bit code units. Literals of the source are
  written \<open>js ''...''\<close>.
\<close>

type_synonym jsstring = "16 word list"

definition js :: "string \<Rightarrow> jsstring" where
  "js s = map of_char s"

text \<open>
  \<open>String.prototype.trim\<close> removes leading and trailing WhiteSpace and LineTerminator
  code units (ECMAScript: TAB, LF, VT, FF, CR, SP, NBSP, the Unicode space separators,
  LS, PS and the byte order mark).
\<close>

definition WhiteSpace :: "16 word \<Rightarrow> bool" where
  "WhiteSpace c =
     (c \<in> {0x09, 0x0A, 0x0B, 0x0C, 0x0D, 0x20, 0xA0, 0x1680, 0x2028, 0x2029, 0x202F,
            0x205F, 0x3000, 0xFEFF}
      \<or> (0x2000 \<le> c \<and> c \<le> 0x200A))"

definition trim :: "jsstring \<Rightarrow> jsstring" where
  "trim s = rev (dropWhile WhiteSpace (rev (dropWhile WhiteSpace s)))"

text \<open>
  A JavaScript number is a double: NaN, the two infinities, or a finite value. The finite
  values are embedded in the rationals; the plugin only compares numbers and takes
  minima and maxima, which is exact.
\<close>

datatype jsnum = NaN | NegInfinity | Finite rat | PosInfinity

fun js_less :: "jsnum \<Rightarrow> jsnum \<Rightarrow> bool" where
  "js_less NaN _ = False"
| "js_less _ NaN = False"
| "js_less _ NegInfinity = False"
| "js_less NegInfinity _ = True"
| "js_less PosInfinity _ = False"
| "js_less (Finite a) (Finite b) = (a < b)"
| "js_less (Finite a) PosInfinity = True"

definition Math_min :: "jsnum \<Rightarrow> jsnum \<Rightarrow> jsnum" where
  "Math_min a b = (if a = NaN \<or> b = NaN then NaN else if js_less b a then b else a)"

definition Math_max :: "jsnum \<Rightarrow> jsnum \<Rightarrow> jsnum" where
  "Math_max a b = (if a = NaN \<or> b = NaN then NaN else if js_less a b then b else a)"

datatype jsval =
    JUndefined
  | JNull
  | JBoolean bool
  | JNumber jsnum
  | JString jsstring
  | JArray "jsval list"
  | JObject "(jsstring \<times> jsval) list"

text \<open>\<open>params: Record<string, unknown>\<close>: reading a property that is absent gives undefined.\<close>

type_synonym js_record = "string \<Rightarrow> jsval"

definition no_params :: js_record where
  "no_params = (\<lambda>_. JUndefined)"

text \<open>Truthiness of an optional string (\<open>undefined\<close> and \<open>""\<close> are falsy) and of a number.\<close>

definition truthy_str :: "jsstring option \<Rightarrow> bool" where
  "truthy_str x = (case x of None \<Rightarrow> False | Some s \<Rightarrow> s \<noteq> [])"

text \<open>\<open>a || b\<close> for an optional string \<open>a\<close>.\<close>

definition or_str :: "jsstring option \<Rightarrow> jsstring \<Rightarrow> jsstring" where
  "or_str a b = (case a of None \<Rightarrow> b | Some s \<Rightarrow> if s \<noteq> [] then s else b)"

definition truthy_num :: "jsnum \<Rightarrow> bool" where
  "truthy_num x = (x \<noteq> NaN \<and> x \<noteq> Finite 0)"

text \<open>\<open>data?.error\<close>: only an object has own properties read here; every other value,
  \<open>null\<close> included, gives undefined.\<close>

definition opt_member :: "jsval \<Rightarrow> jsstring \<Rightarrow> jsval" where
  "opt_member v k =
     (case v of
        JObject kvs \<Rightarrow> (case map_of kvs k of None \<Rightarrow> JUndefined | Some x \<Rightarrow> x)
      | _ \<Rightarrow> JUndefined)"

text \<open>The decimal digits of a non-negative integer, as a template literal renders
  \<open>res.status\<close>.\<close>

fun decimal :: "nat \<Rightarrow> jsstring" where
  "decimal n =
     (if n < 10 then [of_nat (48 + n)]
      else decimal (n div 10) @ [of_nat (48 + n mod 10)])"

declare decimal.simps [simp del]

section \<open>Errors, requests and the platform\<close>

text \<open>
  Every failure of the source is a thrown \<open>Error\<close> with a message, or a rejection of an
  awaited promise. The constructors name the throw sites (with the message thrown):
  \<^item> \<open>UnsafeEndpoint\<close>: \<open>getCfg\<close>, the base URL fails the prefix check;
  \<^item> \<open>MissingCredential\<close>: \<open>getApiKey\<close>, no key;
  \<^item> \<open>InvalidArgument\<close>: the checks of a tool's \<open>execute\<close>;
  \<^item> \<open>UpstreamError\<close>: \<open>callMoltbook\<close>, a response that is not ok;
  \<^item> \<open>Timeout\<close>: the awaited request was aborted by the timer's \<open>controller.abort()\<close>;
  \<^item> \<open>NetworkFailure\<close>: any other rejection of the awaited request;
  \<^item> \<open>URIError\<close>: thrown by \<open>encodeURIComponent\<close>.
\<close>

datatype error =
    UnsafeEndpoint jsstring
  | MissingCredential jsstring
  | InvalidArgument jsstring
  | UpstreamError jsstring
  | Timeout
  | NetworkFailure
  | URIError

record RequestInit =
  init_method :: jsstring
  init_body :: "jsstring option"
  init_headers :: "(jsstring \<times> jsstring) list"

record Request =
  url :: jsstring
  req_method :: jsstring
  req_body :: "jsstring option"
  req_headers :: "(jsstring \<times> jsstring) list"

text \<open>A response whose body has been read: \<open>res.status\<close>, \<open>res.headers\<close> and the result of
  \<open>res.text()\<close>. \<open>res.ok\<close> is true for a status from 200 to 299.\<close>

record Response =
  status :: nat
  resp_headers :: "(jsstring \<times> jsstring) list"
  body_text :: jsstring

definition ok :: "Response \<Rightarrow> bool" where
  "ok res = (200 \<le> status res \<and> status res \<le> 299)"

text \<open>
  \<open>res.headers.get(name)\<close>: header names compare without regard to the case of ASCII
  letters, the values of a header that is repeated are joined with a comma and a space, and
  the result is \<open>null\<close> when the response has no header of that name. \<open>resp_headers\<close> holds
  the header lines of the response in order, with the names as they were sent.
\<close>

definition ascii_lower :: "16 word \<Rightarrow> 16 word" where
  "ascii_lower c = (if 0x41 \<le> c \<and> c \<le> 0x5A then c + 0x20 else c)"

definition header_values :: "Response \<Rightarrow> jsstring \<Rightarrow> jsstring list" where
  "header_values res name =
     map snd (filter (\<lambda>h. map ascii_lower (fst h) = map ascii_lower name) (resp_headers res))"

fun join_values :: "jsstring list \<Rightarrow> jsstring" where
  "join_values [] = []"
| "join_values [v] = v"
| "join_values (v # vs) = v @ js '', '' @ join_values vs"

definition headers_get :: "Response \<Rightarrow> jsstring \<Rightarrow> jsstring option" where
  "headers_get res name =
     (case header_values res name of [] \<Rightarrow> None | vs \<Rightarrow> Some (join_values vs))"

text \<open>What awaiting \<open>fetch(...)\<close> and then \<open>res.text()\<close> gives: either promise is rejected
  because the timer fired and aborted the request, or for another reason (the network), or
  the response arrives with its body.\<close>

datatype fetch_outcome = Aborted | Failed | Responded Response

text \<open>
  The platform the plugin runs on: the process environment, the JSON and URL built-ins
  and the network. \<open>JSON_parse\<close> is \<open>None\<close> where \<open>JSON.parse\<close> throws;
  \<open>JSON_stringify_pretty\<close> is \<open>JSON.stringify(x, null, 2)\<close>; \<open>String_of_number\<close> is
  \<open>String(n)\<close>; \<open>URLSearchParams_toString\<close> serialises the entries of a
  \<open>URLSearchParams\<close>; \<open>encodeURIComponent\<close> is \<open>None\<close> where it throws a \<open>URIError\<close> (on
  a string with a lone surrogate).
\<close>

record runtime =
  env_MOLTBOOK_API_KEY :: "jsstring option"
  JSON_parse :: "jsstring \<Rightarrow> jsval option"
  JSON_stringify :: "jsval \<Rightarrow> jsstring"
  JSON_stringify_pretty :: "jsval \<Rightarrow> jsstring"
  String_of_number :: "jsnum \<Rightarrow> jsstring"
  URLSearchParams_toString :: "(jsstring \<times> jsstring) list \<Rightarrow> jsstring"
  encodeURIComponent :: "jsstring \<Rightarrow> jsstring option"
  fetch :: "Request \<Rightarrow> fetch_outcome"

text \<open>
  The effects of a call: the timers set and not yet cleared (handle and delay), the next
  timer handle, and the requests sent to the network, oldest first. A timer stays in the
  list until \<open>clearTimeout\<close> is called with its handle, also when it has fired.
\<close>

record state =
  timers :: "(nat \<times> jsnum) list"
  next_timer :: nat
  network_calls :: "Request list"

definition setTimeout :: "jsnum \<Rightarrow> state \<Rightarrow> nat \<times> state" where
  "setTimeout delay s =
     (next_timer s,
      s\<lparr>timers := timers s @ [(next_timer s, delay)], next_timer := Suc (next_timer s)\<rparr>)"

definition clearTimeout :: "nat \<Rightarrow> state \<Rightarrow> state" where
  "clearTimeout h s = s\<lparr>timers := filter (\<lambda>t. fst t \<noteq> h) (timers s)\<rparr>"

text \<open>Object spread \<open>{...a, ...b}\<close>: a key of \<open>b\<close> replaces the value of the same key of
  \<open>a\<close> in place, a new key is added at the end (the order of keys that are not array
  indices, as header and field names are).\<close>

definition spread :: "('k \<times> 'v) list \<Rightarrow> ('k \<times> 'v) list \<Rightarrow> ('k \<times> 'v) list" where
  "spread a b = fold (\<lambda>kv. AList.update (fst kv) (snd kv)) b a"

section \<open>Config resolution\<close>

definition SAFE_BASE :: jsstring where
  "SAFE_BASE = js ''https://www.moltbook.com/api/v1''"

text \<open>\<open>PluginCfg\<close>; \<open>getCfg\<close> returns it with \<open>apiBase\<close> required.\<close>

record 'base PluginCfg =
  apiBase :: 'base
  apiKey :: "jsstring option"
  defaultSubmolt :: "jsstring option"
  requestTimeoutMs :: "jsnum option"

record api =
  pluginConfig :: "jsstring option PluginCfg option"

text \<open>\<open>api.pluginConfig ?? {}\<close>\<close>

definition empty_cfg :: "jsstring option PluginCfg" where
  "empty_cfg = \<lparr>apiBase = None, apiKey = None, defaultSubmolt = None, requestTimeoutMs = None\<rparr>"

definition plugin_cfg :: "api \<Rightarrow> jsstring option PluginCfg" where
  "plugin_cfg a = (case pluginConfig a of None \<Rightarrow> empty_cfg | Some c \<Rightarrow> c)"

text \<open>\<open>(cfg.apiBase || SAFE_BASE).trim()\<close>\<close>

definition resolved_apiBase :: "jsstring option PluginCfg \<Rightarrow> jsstring" where
  "resolved_apiBase cfg = trim (or_str (apiBase cfg) SAFE_BASE)"

definition unsafe_message :: jsstring where
  "unsafe_message = js ''Unsafe apiBase. Must use '' @ SAFE_BASE"

definition getCfg :: "api \<Rightarrow> error + jsstring PluginCfg" where
  "getCfg a =
     (let cfg = plugin_cfg a;
          apiBase' = resolved_apiBase cfg
      in if \<not> prefix SAFE_BASE apiBase'
         then Inl (UnsafeEndpoint unsafe_message)
         else Inr \<lparr>apiBase = apiBase', apiKey = apiKey cfg,
                   defaultSubmolt = defaultSubmolt cfg,
                   requestTimeoutMs = requestTimeoutMs cfg\<rparr>)"

definition missing_key_message :: jsstring where
  "missing_key_message =
     js ''Missing MoltBook API key (plugin config apiKey or MOLTBOOK_API_KEY)''"

definition getApiKey :: "runtime \<Rightarrow> api \<Rightarrow> error + jsstring" where
  "getApiKey rt a =
     (case getCfg a of
        Inl e \<Rightarrow> Inl e
      | Inr cfg \<Rightarrow>
          let key = trim (or_str (apiKey cfg) (or_str (env_MOLTBOOK_API_KEY rt) []))
          in if key = []
             then Inl (MissingCredential missing_key_message)
             else Inr key)"

section \<open>The HTTP bridge\<close>

text \<open>The body of a response as data: \<open>null\<close> for an empty body, the parsed JSON, or
  \<open>{raw: text}\<close> where parsing throws.\<close>

definition parse_body :: "runtime \<Rightarrow> jsstring \<Rightarrow> jsval" where
  "parse_body rt t =
     (if t \<noteq> []
      then (case JSON_parse rt t of
              Some v \<Rightarrow> v
            | None \<Rightarrow> JObject [(js ''raw'', JString t)])
      else JNull)"

definition handle_response :: "runtime \<Rightarrow> Response \<Rightarrow> error + jsval" where
  "handle_response rt res =
     (let data = parse_body rt (body_text res)
      in if \<not> ok res
         then
           let retryAfter = headers_get res (js ''retry-after'');
               detail = (case opt_member data (js ''error'') of
                           JString e \<Rightarrow> e
                         | _ \<Rightarrow> JSON_stringify rt data)
           in Inl (UpstreamError
                (js ''MoltBook API '' @ decimal (status res) @ js '': '' @ detail @
                 (case retryAfter of
                    None \<Rightarrow> []
                  | Some v \<Rightarrow> if v \<noteq> [] then js '' (retry-after='' @ v @ js ''s)'' else [])))
         else Inr data)"

text \<open>The request \<open>fetch\<close> is called with: the URL \<open>apiBase + path\<close>, the fields of \<open>init\<close>,
  and the two headers of the bridge under the headers of \<open>init\<close>.\<close>

definition build_request ::
  "jsstring PluginCfg \<Rightarrow> jsstring \<Rightarrow> jsstring \<Rightarrow> RequestInit \<Rightarrow> Request" where
  "build_request cfg key path init =
     \<lparr>url = apiBase cfg @ path,
      req_method = init_method init,
      req_body = init_body init,
      req_headers =
        spread [(js ''Authorization'', js ''Bearer '' @ key),
                (js ''Content-Type'', js ''application/json'')]
               (init_headers init)\<rparr>"

text \<open>How the awaits of the \<open>try\<close> block end: a rejection is thrown, a response is
  handled.\<close>

definition settle :: "runtime \<Rightarrow> fetch_outcome \<Rightarrow> error + jsval" where
  "settle rt out =
     (case out of
        Aborted \<Rightarrow> Inl Timeout
      | Failed \<Rightarrow> Inl NetworkFailure
      | Responded res \<Rightarrow> handle_response rt res)"

text \<open>The \<open>try\<close> block of \<open>callMoltbook\<close>: the request is sent and awaited.\<close>

definition callMoltbook_try ::
  "runtime \<Rightarrow> jsstring PluginCfg \<Rightarrow> jsstring \<Rightarrow> jsstring \<Rightarrow> RequestInit \<Rightarrow> state
     \<Rightarrow> (error + jsval) \<times> state" where
  "callMoltbook_try rt cfg key path init s =
     (let req = build_request cfg key path init;
          s' = s\<lparr>network_calls := network_calls s @ [req]\<rparr>
      in (settle rt (fetch rt req), s'))"

text \<open>\<open>cfg.requestTimeoutMs && cfg.requestTimeoutMs > 0 ? cfg.requestTimeoutMs : 15000\<close>\<close>

definition timeoutMs :: "jsstring PluginCfg \<Rightarrow> jsnum" where
  "timeoutMs cfg =
     (case requestTimeoutMs cfg of
        None \<Rightarrow> Finite 15000
      | Some t \<Rightarrow> if truthy_num t \<and> js_less (Finite 0) t then t else Finite 15000)"

text \<open>\<open>callMoltbook\<close>: config, key, the timer, the \<open>try\<close> block, and \<open>clearTimeout\<close> in
  the \<open>finally\<close> block, which runs however the \<open>try\<close> block ends.\<close>

definition callMoltbook ::
  "runtime \<Rightarrow> api \<Rightarrow> jsstring \<Rightarrow> RequestInit \<Rightarrow> state \<Rightarrow> (error + jsval) \<times> state" where
  "callMoltbook rt a path init s =
     (case getCfg a of
        Inl e \<Rightarrow> (Inl e, s)
      | Inr cfg \<Rightarrow>
          (case getApiKey rt a of
             Inl e \<Rightarrow> (Inl e, s)
           | Inr key \<Rightarrow>
               let (timeout, s1) = setTimeout (timeoutMs cfg) s;
                   (r, s2) = callMoltbook_try rt cfg key path init s1
               in (r, clearTimeout timeout s2)))"

section \<open>The tools\<close>

record content_item =
  item_type :: jsstring
  item_text :: jsstring

record ToolResult =
  content :: "content_item list"
  details :: jsval

text \<open>What every \<open>execute\<close> does with the outcome of the bridge: an error propagates, a
  value is wrapped.\<close>

definition tool_result ::
  "runtime \<Rightarrow> (error + jsval) \<times> state \<Rightarrow> (error + ToolResult) \<times> state" where
  "tool_result rt r =
     (case r of
        (Inl e, s) \<Rightarrow> (Inl e, s)
      | (Inr out, s) \<Rightarrow>
          (Inr \<lparr>content = [\<lparr>item_type = js ''text'',
                             item_text = JSON_stringify_pretty rt out\<rparr>],
                 details = out\<rparr>, s))"

definition GET :: RequestInit where
  "GET = \<lparr>init_method = js ''GET'', init_body = None, init_headers = []\<rparr>"

subsection \<open>\<open>moltbook_post\<close>\<close>

definition trimmed_string :: "jsval \<Rightarrow> jsstring option" where
  "trimmed_string v = (case v of JString x \<Rightarrow> Some (trim x) | _ \<Rightarrow> None)"

definition post_submolt :: "jsstring PluginCfg \<Rightarrow> js_record \<Rightarrow> jsstring" where
  "post_submolt cfg params =
     or_str (trimmed_string (params ''submolt'')) (or_str (defaultSubmolt cfg) (js ''general''))"

definition post_title :: "js_record \<Rightarrow> jsstring" where
  "post_title params = (case params ''title'' of JString x \<Rightarrow> trim x | _ \<Rightarrow> [])"

definition post_content :: "js_record \<Rightarrow> jsstring option" where
  "post_content params = trimmed_string (params ''content'')"

definition post_url :: "js_record \<Rightarrow> jsstring option" where
  "post_url params = trimmed_string (params ''url'')"

definition optional_field :: "string \<Rightarrow> jsstring option \<Rightarrow> (jsstring \<times> jsval) list" where
  "optional_field k v =
     (case v of None \<Rightarrow> [] | Some x \<Rightarrow> if x \<noteq> [] then [(js k, JString x)] else [])"

definition post_execute ::
  "runtime \<Rightarrow> api \<Rightarrow> js_record \<Rightarrow> state \<Rightarrow> (error + ToolResult) \<times> state" where
  "post_execute rt a params s =
     (case getCfg a of
        Inl e \<Rightarrow> (Inl e, s)
      | Inr cfg \<Rightarrow>
          let submolt = post_submolt cfg params;
              title = post_title params;
              content' = post_content params;
              url' = post_url params
          in if title = [] then (Inl (InvalidArgument (js ''title is required'')), s)
             else if \<not> truthy_str content' \<and> \<not> truthy_str url'
             then (Inl (InvalidArgument (js ''Either content or url is required'')), s)
             else
               let body = JObject
                     (spread
                        (spread [(js ''submolt'', JString submolt), (js ''title'', JString title)]
                                (optional_field ''content'' content'))
                        (optional_field ''url'' url'))
               in tool_result rt
                    (callMoltbook rt a (js ''/posts'')
                       \<lparr>init_method = js ''POST'',
                        init_body = Some (JSON_stringify rt body),
                        init_headers = []\<rparr> s))"

subsection \<open>\<open>moltbook_feed\<close>\<close>

definition feed_personalized :: "js_record \<Rightarrow> bool" where
  "feed_personalized params = (params ''personalized'' \<noteq> JBoolean False)"

definition feed_sort :: "js_record \<Rightarrow> jsstring" where
  "feed_sort params = (case params ''sort'' of JString x \<Rightarrow> x | _ \<Rightarrow> js ''new'')"

definition feed_limit :: "js_record \<Rightarrow> jsnum" where
  "feed_limit params =
     (case params ''limit'' of
        JNumber n \<Rightarrow> Math_max (Finite 1) (Math_min (Finite 50) n)
      | _ \<Rightarrow> Finite 10)"

definition feed_submolt :: "js_record \<Rightarrow> jsstring" where
  "feed_submolt params = (case params ''submolt'' of JString x \<Rightarrow> trim x | _ \<Rightarrow> [])"

definition feed_qs :: "runtime \<Rightarrow> js_record \<Rightarrow> jsstring" where
  "feed_qs rt params =
     URLSearchParams_toString rt
       [(js ''sort'', feed_sort params),
        (js ''limit'', String_of_number rt (feed_limit params))]"

definition feed_path :: "runtime \<Rightarrow> js_record \<Rightarrow> error + jsstring" where
  "feed_path rt params =
     (if feed_personalized params then Inr (js ''/feed?'' @ feed_qs rt params)
      else if feed_submolt params \<noteq> []
      then (case encodeURIComponent rt (feed_submolt params) of
              None \<Rightarrow> Inl URIError
            | Some enc \<Rightarrow> Inr (js ''/posts?'' @ feed_qs rt params @ js ''&submolt='' @ enc))
      else Inr (js ''/posts?'' @ feed_qs rt params))"

definition feed_execute ::
  "runtime \<Rightarrow> api \<Rightarrow> js_record \<Rightarrow> state \<Rightarrow> (error + ToolResult) \<times> state" where
  "feed_execute rt a params s =
     (case feed_path rt params of
        Inl e \<Rightarrow> (Inl e, s)
      | Inr path \<Rightarrow> tool_result rt (callMoltbook rt a path GET s))"

subsection \<open>\<open>moltbook_search\<close>\<close>

definition search_query :: "js_record \<Rightarrow> jsstring" where
  "search_query params = (case params ''query'' of JString x \<Rightarrow> trim x | _ \<Rightarrow> [])"

definition search_type :: "js_record \<Rightarrow> jsstring" where
  "search_type params = (case params ''type'' of JString x \<Rightarrow> x | _ \<Rightarrow> js ''all'')"

definition search_limit :: "js_record \<Rightarrow> jsnum" where
  "search_limit params =
     (case params ''limit'' of
        JNumber n \<Rightarrow> Math_max (Finite 1) (Math_min (Finite 50) n)
      | _ \<Rightarrow> Finite 20)"

definition search_path :: "runtime \<Rightarrow> js_record \<Rightarrow> jsstring" where
  "search_path rt params =
     js ''/search?'' @
     URLSearchParams_toString rt
       [(js ''q'', search_query params),
        (js ''type'', search_type params),
        (js ''limit'', String_of_number rt (search_limit params))]"

definition search_execute ::
  "runtime \<Rightarrow> api \<Rightarrow> js_record \<Rightarrow> state \<Rightarrow> (error + ToolResult) \<times> state" where
  "search_execute rt a params s =
     (if search_query params = []
      then (Inl (InvalidArgument (js ''query is required'')), s)
      else tool_result rt (callMoltbook rt a (search_path rt params) GET s))"

section \<open>A simulated platform for the examples\<close>

text \<open>
  The examples run the plugin against a simulated upstream that answers every request with
  one fixed outcome. The built-ins are stand-ins that agree with the real ones on the values
  the examples pass to them: the simulated \<open>JSON.parse\<close> accepts no text (the examples only
  send it text that is not JSON), \<open>JSON.stringify\<close> renders \<open>null\<close> and the booleans,
  \<open>String\<close> renders NaN, the infinities and the non-negative integers, and the URL
  encoders leave their input as it is (the examples encode letters and digits).
\<close>

definition sim_stringify :: "jsval \<Rightarrow> jsstring" where
  "sim_stringify v =
     (case v of
        JNull \<Rightarrow> js ''null''
      | JBoolean b \<Rightarrow> (if b then js ''true'' else js ''false'')
      | _ \<Rightarrow> js ''[object]'')"

definition sim_String :: "jsnum \<Rightarrow> jsstring" where
  "sim_String n =
     (case n of
        NaN \<Rightarrow> js ''NaN''
      | NegInfinity \<Rightarrow> js ''-Infinity''
      | PosInfinity \<Rightarrow> js ''Infinity''
      | Finite q \<Rightarrow> decimal (nat \<lfloor>q\<rfloor>))"

fun sim_qs :: "(jsstring \<times> jsstring) list \<Rightarrow> jsstring" where
  "sim_qs [] = []"
| "sim_qs [(k, v)] = k @ js ''='' @ v"
| "sim_qs ((k, v) # kvs) = k @ js ''='' @ v @ js ''&'' @ sim_qs kvs"

definition sim_runtime :: "jsstring option \<Rightarrow> fetch_outcome \<Rightarrow> runtime" where
  "sim_runtime env_key upstream =
     \<lparr>env_MOLTBOOK_API_KEY = env_key,
      JSON_parse = (\<lambda>_. None),
      JSON_stringify = sim_stringify,
      JSON_stringify_pretty = sim_stringify,
      String_of_number = sim_String,
      URLSearchParams_toString = sim_qs,
      encodeURIComponent = Some,
      fetch = (\<lambda>_. upstream)\<rparr>"

text \<open>
  A second simulated platform, for the examples with a JSON body: its \<open>JSON.parse\<close> parses
  the one JSON text \<open>{"error":"rate limited"}\<close> and no other text (the examples send it no
  other JSON text), and its \<open>JSON.stringify\<close> also renders an object with one string
  field (right where the string needs no escape).
\<close>

definition quoted :: "jsstring \<Rightarrow> jsstring" where
  "quoted x = 0x22 # x @ [0x22]"

definition rate_limited_body :: jsstring where
  "rate_limited_body =
     js ''{'' @ quoted (js ''error'') @ js '':'' @ quoted (js ''rate limited'') @ js ''}''"

definition json_parse_one :: "jsstring \<Rightarrow> jsval option" where
  "json_parse_one t =
     (if t = rate_limited_body
      then Some (JObject [(js ''error'', JString (js ''rate limited''))])
      else None)"

definition json_stringify_flat :: "jsval \<Rightarrow> jsstring" where
  "json_stringify_flat v =
     (case v of
        JObject [(k, JString x)] \<Rightarrow> js ''{'' @ quoted k @ js '':'' @ quoted x @ js ''}''
      | _ \<Rightarrow> sim_stringify v)"

definition json_runtime :: "jsstring option \<Rightarrow> fetch_outcome \<Rightarrow> runtime" where
  "json_runtime env_key upstream =
     (sim_runtime env_key upstream)
       \<lparr>JSON_parse := json_parse_one, JSON_stringify := json_stringify_flat\<rparr>"

definition cfg_with_base :: "jsstring option \<Rightarrow> api" where
  "cfg_with_base b =
     \<lparr>pluginConfig = Some \<lparr>apiBase = b, apiKey = None, defaultSubmolt = None,
                             requestTimeoutMs = None\<rparr>\<rparr>"

definition idle :: state where
  "idle = \<lparr>timers = [], next_timer = 0, network_calls = []\<rparr>"

text \<open>A state in which an earlier timer is still armed.\<close>

definition busy :: state where
  "busy = \<lparr>timers = [(3, Finite 250)], next_timer = 7, network_calls = []\<rparr>"

section \<open>Terms of the specification\<close>

text \<open>The specification's "absent or blank after trimming", for a parameter as it arrives:
  not a string, or a string that trims to the empty string.\<close>

definition absent_or_blank :: "jsval \<Rightarrow> bool" where
  "absent_or_blank v = (case v of JString x \<Rightarrow> trim x = [] | _ \<Rightarrow> True)"

text \<open>
  The specification's "exactly the trusted prefix or a sub-path extension of it": the
  prefix itself, or the prefix followed by a path separator and further text.
\<close>

definition exact_or_subpath :: "jsstring \<Rightarrow> jsstring \<Rightarrow> bool" where
  "exact_or_subpath base s = (s = base \<or> prefix (base @ js ''/'') s)"

section \<open>Basic facts\<close>

subsection \<open>Config and key\<close>

lemma trim_Nil: "trim [] = []"
  by (simp add: trim_def)

lemma trim_SAFE_BASE: "trim SAFE_BASE = SAFE_BASE"
  by (simp add: trim_def SAFE_BASE_def js_def WhiteSpace_def)

lemma getCfg_unsafe:
  "\<not> prefix SAFE_BASE (resolved_apiBase (plugin_cfg a)) \<Longrightarrow>
     getCfg a = Inl (UnsafeEndpoint unsafe_message)"
  by (simp add: getCfg_def Let_def)

lemma getCfg_safe:
  "prefix SAFE_BASE (resolved_apiBase (plugin_cfg a)) \<Longrightarrow>
     getCfg a = Inr \<lparr>apiBase = resolved_apiBase (plugin_cfg a),
                     apiKey = apiKey (plugin_cfg a),
                     defaultSubmolt = defaultSubmolt (plugin_cfg a),
                     requestTimeoutMs = requestTimeoutMs (plugin_cfg a)\<rparr>"
  by (simp add: getCfg_def Let_def)

lemma getCfg_Inl: "getCfg a = Inl e \<Longrightarrow> e = UnsafeEndpoint unsafe_message"
  by (auto simp: getCfg_def Let_def split: if_splits)

lemma getCfg_Inr:
  "getCfg a = Inr cfg \<Longrightarrow>
     prefix SAFE_BASE (apiBase cfg) \<and> apiBase cfg = resolved_apiBase (plugin_cfg a)"
  by (auto simp: getCfg_def Let_def split: if_splits)

lemma resolved_default:
  "apiBase cfg = None \<or> apiBase cfg = Some [] \<Longrightarrow> resolved_apiBase cfg = SAFE_BASE"
  by (auto simp: resolved_apiBase_def or_str_def trim_SAFE_BASE)

lemma resolved_configured:
  "apiBase cfg = Some b \<Longrightarrow> b \<noteq> [] \<Longrightarrow> resolved_apiBase cfg = trim b"
  by (simp add: resolved_apiBase_def or_str_def)

lemma not_prefix_SAFE_BASE_Nil: "\<not> prefix SAFE_BASE []"
  by (simp add: SAFE_BASE_def js_def)

lemma getApiKey_cfg_error: "getCfg a = Inl e \<Longrightarrow> getApiKey rt a = Inl e"
  by (simp add: getApiKey_def)

lemma getApiKey_Inl:
  "getApiKey rt a = Inl e \<Longrightarrow>
     e = UnsafeEndpoint unsafe_message \<or> e = MissingCredential missing_key_message"
  by (auto simp: getApiKey_def Let_def split: sum.splits if_splits dest: getCfg_Inl)

subsection \<open>The bridge and the result of a tool\<close>

lemma callMoltbook_cfg_error:
  "getCfg a = Inl e \<Longrightarrow> callMoltbook rt a path init s = (Inl e, s)"
  by (simp add: callMoltbook_def)



lemma callMoltbook_key_error:
  "getCfg a = Inr cfg \<Longrightarrow> getApiKey rt a = Inl e \<Longrightarrow>
     callMoltbook rt a path init s = (Inl e, s)"
  by (simp add: callMoltbook_def)



lemma callMoltbook_try_eq:
  "callMoltbook_try rt cfg key path init s =
     (settle rt (fetch rt (build_request cfg key path init)),
      s\<lparr>network_calls := network_calls s @ [build_request cfg key path init]\<rparr>)"
  by (simp add: callMoltbook_try_def Let_def)

lemma callMoltbook_run:
  assumes "getCfg a = Inr cfg" and "getApiKey rt a = Inr key"
  shows "callMoltbook rt a path init s =
     (settle rt (fetch rt (build_request cfg key path init)),
      s\<lparr>timers := filter (\<lambda>t. fst t \<noteq> next_timer s)
                     (timers s @ [(next_timer s, timeoutMs cfg)]),
        next_timer := Suc (next_timer s),
        network_calls := network_calls s @ [build_request cfg key path init]\<rparr>)"
  using assms
  by (simp add: callMoltbook_def callMoltbook_try_eq setTimeout_def clearTimeout_def
       Let_def)

lemma callMoltbook_network_call:
  "getCfg a = Inr cfg \<Longrightarrow> getApiKey rt a = Inr key \<Longrightarrow>
     network_calls (snd (callMoltbook rt a path init s))
       = network_calls s @ [build_request cfg key path init]"
  by (simp add: callMoltbook_run)

lemma callMoltbook_responded:
  assumes "getCfg a = Inr cfg" and "getApiKey rt a = Inr key"
    and "fetch rt (build_request cfg key path init) = Responded res"
  shows "fst (callMoltbook rt a path init s) = handle_response rt res"
  using assms by (simp add: callMoltbook_run settle_def)

lemma handle_response_Inl:
  "handle_response rt res = Inl e \<Longrightarrow> \<exists>m. e = UpstreamError m"
  by (auto simp: handle_response_def Let_def split: if_splits)

lemma settle_Inl:
  "settle rt out = Inl e \<Longrightarrow> e = Timeout \<or> e = NetworkFailure \<or> (\<exists>m. e = UpstreamError m)"
  by (auto simp: settle_def split: fetch_outcome.splits dest: handle_response_Inl)

lemma callMoltbook_not_InvalidArgument:
  "fst (callMoltbook rt a path init s) \<noteq> Inl (InvalidArgument m)"
proof (cases "getCfg a")
  case (Inl e)
  then show ?thesis
    by (auto simp: callMoltbook_cfg_error dest: getCfg_Inl)
next
  case (Inr cfg)
  show ?thesis
  proof (cases "getApiKey rt a")
    case (Inl e)
    with Inr show ?thesis
      by (auto simp: callMoltbook_key_error dest: getApiKey_Inl)
  next
    case (Inr key)
    with \<open>getCfg a = Inr cfg\<close> show ?thesis
      by (auto simp: callMoltbook_run dest: settle_Inl)
  qed
qed

lemma fst_tool_result:
  "fst (tool_result rt r) = Inl e \<longleftrightarrow> fst r = Inl e"
  by (cases r) (auto simp: tool_result_def split: sum.splits)

lemma snd_tool_result: "snd (tool_result rt r) = snd r"
  by (cases r) (auto simp: tool_result_def split: sum.splits)



lemma tool_result_not_InvalidArgument:
  "fst (tool_result rt (callMoltbook rt a path init s)) \<noteq> Inl (InvalidArgument m)"
  by (simp add: fst_tool_result callMoltbook_not_InvalidArgument)

lemma tool_result_network_call:
  "getCfg a = Inr cfg \<Longrightarrow> getApiKey rt a = Inr key \<Longrightarrow>
     network_calls (snd (tool_result rt (callMoltbook rt a path init s)))
       = network_calls s @ [build_request cfg key path init]"
  by (simp add: snd_tool_result callMoltbook_network_call)

subsection \<open>The simulated platform\<close>

lemma plugin_cfg_with_base:
  "plugin_cfg (cfg_with_base b) =
     \<lparr>apiBase = b, apiKey = None, defaultSubmolt = None, requestTimeoutMs = None\<rparr>"
  by (simp add: plugin_cfg_def cfg_with_base_def)

lemma getCfg_default:
  "getCfg (cfg_with_base None)
     = Inr \<lparr>apiBase = SAFE_BASE, apiKey = None, defaultSubmolt = None,
             requestTimeoutMs = None\<rparr>"
  by (simp add: getCfg_safe plugin_cfg_with_base resolved_default)

lemma getApiKey_sim:
  "getApiKey (sim_runtime (Some (js ''k3y'')) out) (cfg_with_base None) = Inr (js ''k3y'')"
  by (simp add: getApiKey_def getCfg_default sim_runtime_def or_str_def trim_def
      WhiteSpace_def js_def)

section \<open>Properties of config resolution\<close>

subsection \<open>The allow-list check\<close>

text \<open>
  Claim C2, as the specification states it, says that every accepted base URL is the trusted
  prefix or a sub-path extension of it. \<open>getCfg\<close> checks the prefix as a string, so it
  accepts \<open>https://www.moltbook.com/api/v10\<close>, which is neither.
\<close>

theorem getCfg_accepts_non_subpath:
  "getCfg (cfg_with_base (Some (js ''https://www.moltbook.com/api/v10'')))
     = Inr \<lparr>apiBase = js ''https://www.moltbook.com/api/v10'', apiKey = None,
             defaultSubmolt = None, requestTimeoutMs = None\<rparr>
   \<and> \<not> exact_or_subpath SAFE_BASE (js ''https://www.moltbook.com/api/v10'')"
  by (simp add: getCfg_def plugin_cfg_with_base resolved_apiBase_def or_str_def trim_def
      WhiteSpace_def SAFE_BASE_def js_def exact_or_subpath_def)

text \<open>
  Claim C2, amended: config resolution succeeds exactly when the resolved \<open>apiBase\<close> (the
  configured value, or the default when it is absent or empty, trimmed) starts with the
  trusted prefix as a string. Every resolved string that does not start with the prefix is
  rejected with \<open>UnsafeEndpoint\<close>, every one that does is accepted and returned, and every
  accepted \<open>apiBase\<close> is the prefix followed by some text (not necessarily a sub-path).
\<close>

theorem getCfg_prefix_check:
  "(\<not> prefix SAFE_BASE (resolved_apiBase (plugin_cfg a)) \<longrightarrow>
      getCfg a = Inl (UnsafeEndpoint unsafe_message))
   \<and> (prefix SAFE_BASE (resolved_apiBase (plugin_cfg a)) \<longrightarrow>
      (\<exists>cfg. getCfg a = Inr cfg \<and> apiBase cfg = resolved_apiBase (plugin_cfg a)))
   \<and> (\<forall>cfg. getCfg a = Inr cfg \<longrightarrow> (\<exists>rest. apiBase cfg = SAFE_BASE @ rest))"
proof (intro conjI impI allI)
  assume "\<not> prefix SAFE_BASE (resolved_apiBase (plugin_cfg a))"
  then show "getCfg a = Inl (UnsafeEndpoint unsafe_message)"
    by (rule getCfg_unsafe)
next
  assume "prefix SAFE_BASE (resolved_apiBase (plugin_cfg a))"
  then show "\<exists>cfg. getCfg a = Inr cfg \<and> apiBase cfg = resolved_apiBase (plugin_cfg a)"
    by (simp add: getCfg_safe)
next
  fix cfg
  assume "getCfg a = Inr cfg"
  then have "prefix SAFE_BASE (apiBase cfg)"
    by (auto dest: getCfg_Inr)
  then show "\<exists>rest. apiBase cfg = SAFE_BASE @ rest"
    by (auto simp: prefix_def)
qed

text \<open>Two configurations: a base URL on another scheme is rejected, a padded sub-path of
  the trusted prefix is accepted, trimmed.\<close>

theorem getCfg_prefix_check_witness:
  "\<not> prefix SAFE_BASE
       (resolved_apiBase (plugin_cfg (cfg_with_base (Some (js ''http://www.moltbook.com/api/v1'')))))
   \<and> getCfg (cfg_with_base (Some (js ''http://www.moltbook.com/api/v1'')))
       = Inl (UnsafeEndpoint unsafe_message)
   \<and> prefix SAFE_BASE
       (resolved_apiBase
          (plugin_cfg (cfg_with_base (Some (js '' https://www.moltbook.com/api/v1/x '')))))
   \<and> (\<exists>cfg. getCfg (cfg_with_base (Some (js '' https://www.moltbook.com/api/v1/x ''))) = Inr cfg
         \<and> apiBase cfg = js ''https://www.moltbook.com/api/v1/x'')"
proof -
  have a: "resolved_apiBase (plugin_cfg (cfg_with_base (Some (js ''http://www.moltbook.com/api/v1''))))
            = js ''http://www.moltbook.com/api/v1''"
    by (simp add: plugin_cfg_with_base resolved_apiBase_def or_str_def trim_def WhiteSpace_def
        js_def)
  have b: "resolved_apiBase
             (plugin_cfg (cfg_with_base (Some (js '' https://www.moltbook.com/api/v1/x ''))))
            = js ''https://www.moltbook.com/api/v1/x''"
    by (simp add: plugin_cfg_with_base resolved_apiBase_def or_str_def trim_def WhiteSpace_def
        js_def)
  have na: "\<not> prefix SAFE_BASE (js ''http://www.moltbook.com/api/v1'')"
    by (simp add: SAFE_BASE_def js_def)
  have pb: "prefix SAFE_BASE (js ''https://www.moltbook.com/api/v1/x'')"
    by (simp add: SAFE_BASE_def js_def)
  show ?thesis
    using getCfg_prefix_check [of "cfg_with_base (Some (js ''http://www.moltbook.com/api/v1''))"]
      getCfg_prefix_check [of "cfg_with_base (Some (js '' https://www.moltbook.com/api/v1/x ''))"]
    by (simp only: a b na pb) simp
qed

subsection \<open>The default base URL\<close>

text \<open>
  Claim C3, as the specification states it, says that a configured \<open>apiBase\<close> that is blank
  after trimming is replaced by the default, so that resolution succeeds. The default
  replaces only an absent or empty value: a value of two spaces is kept, trims to the empty
  string and fails the prefix check.
\<close>

theorem getCfg_blank_apiBase_rejected:
  "trim (js ''  '') = []
   \<and> getCfg (cfg_with_base (Some (js ''  ''))) = Inl (UnsafeEndpoint unsafe_message)"
  by (simp add: getCfg_def plugin_cfg_with_base resolved_apiBase_def or_str_def trim_def
      WhiteSpace_def SAFE_BASE_def js_def)

text \<open>
  Claim C3, amended: when the configured \<open>apiBase\<close> is absent or the empty string, the
  hard-coded default base URL is used and resolution succeeds; when it is present and not
  empty, the configured value is selected and trimmed; a configured value that is not empty
  but blank after trimming is rejected with \<open>UnsafeEndpoint\<close>.
\<close>

theorem getCfg_apiBase_selection:
  "(apiBase (plugin_cfg a) = None \<or> apiBase (plugin_cfg a) = Some [] \<longrightarrow>
      getCfg a = Inr \<lparr>apiBase = SAFE_BASE, apiKey = apiKey (plugin_cfg a),
                      defaultSubmolt = defaultSubmolt (plugin_cfg a),
                      requestTimeoutMs = requestTimeoutMs (plugin_cfg a)\<rparr>)
   \<and> (\<forall>b. apiBase (plugin_cfg a) = Some b \<and> b \<noteq> [] \<longrightarrow>
        resolved_apiBase (plugin_cfg a) = trim b
        \<and> (trim b = [] \<longrightarrow> getCfg a = Inl (UnsafeEndpoint unsafe_message)))"
proof (intro conjI impI allI)
  assume "apiBase (plugin_cfg a) = None \<or> apiBase (plugin_cfg a) = Some []"
  then have r: "resolved_apiBase (plugin_cfg a) = SAFE_BASE"
    by (rule resolved_default)
  then have "prefix SAFE_BASE (resolved_apiBase (plugin_cfg a))"
    by simp
  then show "getCfg a = Inr \<lparr>apiBase = SAFE_BASE, apiKey = apiKey (plugin_cfg a),
                      defaultSubmolt = defaultSubmolt (plugin_cfg a),
                      requestTimeoutMs = requestTimeoutMs (plugin_cfg a)\<rparr>"
    using r by (simp add: getCfg_safe)
next
  fix b
  assume "apiBase (plugin_cfg a) = Some b \<and> b \<noteq> []"
  then show "resolved_apiBase (plugin_cfg a) = trim b"
    by (simp add: resolved_configured)
next
  fix b
  assume h: "apiBase (plugin_cfg a) = Some b \<and> b \<noteq> []" and t: "trim b = []"
  from h have "resolved_apiBase (plugin_cfg a) = trim b"
    by (simp add: resolved_configured)
  with t have "\<not> prefix SAFE_BASE (resolved_apiBase (plugin_cfg a))"
    using not_prefix_SAFE_BASE_Nil by simp
  then show "getCfg a = Inl (UnsafeEndpoint unsafe_message)"
    by (rule getCfg_unsafe)
qed

text \<open>An absent value, a padded sub-path and a value of two spaces.\<close>

theorem getCfg_apiBase_selection_witness:
  "apiBase (plugin_cfg (cfg_with_base None)) = None
   \<and> getCfg (cfg_with_base None)
       = Inr \<lparr>apiBase = SAFE_BASE, apiKey = None, defaultSubmolt = None, requestTimeoutMs = None\<rparr>
   \<and> apiBase (plugin_cfg (cfg_with_base (Some (js '' https://www.moltbook.com/api/v1/x ''))))
       = Some (js '' https://www.moltbook.com/api/v1/x '')
   \<and> resolved_apiBase (plugin_cfg (cfg_with_base (Some (js '' https://www.moltbook.com/api/v1/x ''))))
       = js ''https://www.moltbook.com/api/v1/x''
   \<and> trim (js ''  '') = []
   \<and> getCfg (cfg_with_base (Some (js ''  ''))) = Inl (UnsafeEndpoint unsafe_message)"
proof -
  have t1: "trim (js '' https://www.moltbook.com/api/v1/x '') = js ''https://www.moltbook.com/api/v1/x''"
    by (simp add: trim_def WhiteSpace_def js_def)
  have t2: "trim (js ''  '') = []"
    by (simp add: trim_def WhiteSpace_def js_def)
  have n1: "js '' https://www.moltbook.com/api/v1/x '' \<noteq> []" and n2: "js ''  '' \<noteq> []"
    by (simp_all add: js_def)
  show ?thesis
    using getCfg_apiBase_selection [of "cfg_with_base None"]
      getCfg_apiBase_selection [of "cfg_with_base (Some (js '' https://www.moltbook.com/api/v1/x ''))"]
      getCfg_apiBase_selection [of "cfg_with_base (Some (js ''  ''))"]
    by (simp add: plugin_cfg_with_base t1 t2 n1 n2)
qed

section \<open>The order of the checks of a bridged call\<close>

text \<open>
  Claim C10: the allow-list check comes before the credential: when the resolved \<open>apiBase\<close>
  fails the prefix check, a bridged call fails with \<open>UnsafeEndpoint\<close> and changes nothing,
  whatever the configured key and the environment hold, and so does \<open>getApiKey\<close>;
  \<open>MissingCredential\<close> is not raised.
\<close>

theorem unsafe_base_before_missing_key:
  "\<not> prefix SAFE_BASE (resolved_apiBase (plugin_cfg a)) \<Longrightarrow>
     callMoltbook rt a path init s = (Inl (UnsafeEndpoint unsafe_message), s)
     \<and> getApiKey rt a = Inl (UnsafeEndpoint unsafe_message)
     \<and> (\<forall>m. fst (callMoltbook rt a path init s) \<noteq> Inl (MissingCredential m))"
  by (simp add: getCfg_unsafe callMoltbook_cfg_error getApiKey_cfg_error)

text \<open>A configuration with an unsafe base URL and no key, in an environment with no key:
  the call fails with \<open>UnsafeEndpoint\<close>. With the default base URL the same environment
  gives \<open>MissingCredential\<close>.\<close>

theorem unsafe_base_before_missing_key_witness:
  "\<not> prefix SAFE_BASE
       (resolved_apiBase (plugin_cfg (cfg_with_base (Some (js ''https://evil.example/api/v1'')))))
   \<and> callMoltbook (sim_runtime None (Failed))
         (cfg_with_base (Some (js ''https://evil.example/api/v1''))) (js ''/agents/me'') GET idle
       = (Inl (UnsafeEndpoint unsafe_message), idle)
   \<and> getApiKey (sim_runtime None (Failed))
         (cfg_with_base (Some (js ''https://evil.example/api/v1'')))
       = Inl (UnsafeEndpoint unsafe_message)
   \<and> getApiKey (sim_runtime None (Failed)) (cfg_with_base None)
       = Inl (MissingCredential missing_key_message)"
proof -
  have r: "resolved_apiBase (plugin_cfg (cfg_with_base (Some (js ''https://evil.example/api/v1''))))
             = js ''https://evil.example/api/v1''"
    by (simp add: plugin_cfg_with_base resolved_apiBase_def or_str_def trim_def WhiteSpace_def
        js_def)
  have n: "\<not> prefix SAFE_BASE (js ''https://evil.example/api/v1'')"
    by (simp add: SAFE_BASE_def js_def)
  have d: "getCfg (cfg_with_base None)
             = Inr \<lparr>apiBase = SAFE_BASE, apiKey = None, defaultSubmolt = None,
                     requestTimeoutMs = None\<rparr>"
    by (simp add: getCfg_safe plugin_cfg_with_base resolved_default)
  have k: "getApiKey (sim_runtime None (Failed)) (cfg_with_base None)
             = Inl (MissingCredential missing_key_message)"
    by (simp add: getApiKey_def d sim_runtime_def or_str_def trim_Nil)
  show ?thesis
    using unsafe_base_before_missing_key
      [of "cfg_with_base (Some (js ''https://evil.example/api/v1''))"
          "sim_runtime None (Failed)" "js ''/agents/me''" GET idle]
    by (simp add: r n k)
qed

section \<open>Properties of the tools\<close>

subsection \<open>\<open>moltbook_search\<close>: the query check\<close>

lemma search_query_empty_iff:
  "search_query params = [] \<longleftrightarrow> absent_or_blank (params ''query'')"
  by (simp add: search_query_def absent_or_blank_def split: jsval.splits)

text \<open>
  Claim C1, as the specification states it, says that \<open>execute\<close> fails with
  \<open>InvalidArgument\<close> before any network call when the query trims to a string of length 1.
  \<open>execute\<close> only rejects a query that trims to the empty string: with the query \<open>a\<close>,
  a configured key and an upstream that answers 200 with an empty body, the search request
  is sent and the call succeeds.
\<close>

theorem search_one_char_query_is_sent:
  "search_query (no_params(''query'' := JString (js ''a''))) = js ''a''
   \<and> length (js ''a'') = 1
   \<and> search_execute (sim_runtime (Some (js ''k3y''))
          (Responded \<lparr>status = 200, resp_headers = [], body_text = []\<rparr>))
        (cfg_with_base None) (no_params(''query'' := JString (js ''a''))) idle
      = (Inr \<lparr>content = [\<lparr>item_type = js ''text'', item_text = js ''null''\<rparr>],
               details = JNull\<rparr>,
         \<lparr>timers = [], next_timer = 1,
          network_calls =
            [\<lparr>url = js ''https://www.moltbook.com/api/v1/search?q=a&type=all&limit=20'',
              req_method = js ''GET'', req_body = None,
              req_headers = [(js ''Authorization'', js ''Bearer k3y''),
                             (js ''Content-Type'', js ''application/json'')]\<rparr>]\<rparr>)"
proof -
  let ?rt = "sim_runtime (Some (js ''k3y''))
          (Responded \<lparr>status = 200, resp_headers = [], body_text = []\<rparr>)"
  let ?p = "no_params(''query'' := JString (js ''a''))"
  have q: "search_query ?p = js ''a''"
    by (simp add: search_query_def trim_def WhiteSpace_def js_def)
  have p: "search_path ?rt ?p = js ''/search?q=a&type=all&limit=20''"
    by (simp add: search_path_def search_query_def search_limit_def search_type_def
        no_params_def sim_runtime_def sim_String_def decimal.simps trim_def WhiteSpace_def
        js_def)
  have r: "settle ?rt (Responded \<lparr>status = 200, resp_headers = [], body_text = []\<rparr>) = Inr JNull"
    by (simp add: settle_def handle_response_def parse_body_def ok_def)
  have b: "build_request \<lparr>apiBase = SAFE_BASE, apiKey = None, defaultSubmolt = None,
                     requestTimeoutMs = None\<rparr> (js ''k3y'') (js ''/search?q=a&type=all&limit=20'') GET
        = \<lparr>url = js ''https://www.moltbook.com/api/v1/search?q=a&type=all&limit=20'',
              req_method = js ''GET'', req_body = None,
              req_headers = [(js ''Authorization'', js ''Bearer k3y''),
                             (js ''Content-Type'', js ''application/json'')]\<rparr>"
    by (simp add: build_request_def GET_def spread_def SAFE_BASE_def js_def)
  have f: "fetch ?rt = (\<lambda>_. Responded \<lparr>status = 200, resp_headers = [], body_text = []\<rparr>)"
    by (simp add: sim_runtime_def)
  have e: "search_execute ?rt (cfg_with_base None) ?p idle =
      tool_result ?rt (callMoltbook ?rt (cfg_with_base None) (search_path ?rt ?p) GET idle)"
    using q by (simp add: search_execute_def js_def)
  have s: "JSON_stringify_pretty ?rt JNull = js ''null''"
    by (simp add: sim_runtime_def sim_stringify_def)
  show ?thesis
    unfolding e p callMoltbook_run [OF getCfg_default getApiKey_sim] b
    by (simp add: q f r tool_result_def idle_def s) (simp add: js_def)
qed

text \<open>
  Claim C1, amended: \<open>execute\<close> of \<open>moltbook_search\<close> fails with \<open>InvalidArgument\<close>
  (\<open>query is required\<close>), before any network call and whatever the configuration, exactly
  when the query is not a string or trims to the empty string. Every query whose trimmed
  form has length at least 1 is handed to the bridge: the call never fails with
  \<open>InvalidArgument\<close>, and when the configuration and the key resolve, the search request
  is sent. The minimum length 2 stands only in the declared parameter schema.
\<close>

theorem search_rejects_exactly_blank_query:
  "(absent_or_blank (params ''query'') \<longrightarrow>
      search_execute rt a params s = (Inl (InvalidArgument (js ''query is required'')), s))
   \<and> (\<not> absent_or_blank (params ''query'') \<longrightarrow>
        (\<forall>m. fst (search_execute rt a params s) \<noteq> Inl (InvalidArgument m))
        \<and> (\<forall>cfg key. getCfg a = Inr cfg \<and> getApiKey rt a = Inr key \<longrightarrow>
              network_calls (snd (search_execute rt a params s))
                = network_calls s @ [build_request cfg key (search_path rt params) GET]))"
proof (intro conjI impI allI)
  assume "absent_or_blank (params ''query'')"
  then show "search_execute rt a params s = (Inl (InvalidArgument (js ''query is required'')), s)"
    by (simp add: search_execute_def search_query_empty_iff)
next
  fix m
  assume "\<not> absent_or_blank (params ''query'')"
  then have "search_execute rt a params s
               = tool_result rt (callMoltbook rt a (search_path rt params) GET s)"
    by (simp add: search_execute_def search_query_empty_iff)
  then show "fst (search_execute rt a params s) \<noteq> Inl (InvalidArgument m)"
    by (simp add: tool_result_not_InvalidArgument)
next
  fix cfg key
  assume "\<not> absent_or_blank (params ''query'')"
    and "getCfg a = Inr cfg \<and> getApiKey rt a = Inr key"
  then show "network_calls (snd (search_execute rt a params s))
                = network_calls s @ [build_request cfg key (search_path rt params) GET]"
    by (simp add: search_execute_def search_query_empty_iff tool_result_network_call)
qed

text \<open>A query of one space is rejected and nothing is sent; the query \<open>a\<close> is sent.\<close>

theorem search_rejects_exactly_blank_query_witness:
  "absent_or_blank ((no_params(''query'' := JString (js '' ''))) ''query'')
   \<and> search_execute (sim_runtime (Some (js ''k3y'')) Failed) (cfg_with_base None)
        (no_params(''query'' := JString (js '' ''))) idle
      = (Inl (InvalidArgument (js ''query is required'')), idle)
   \<and> \<not> absent_or_blank ((no_params(''query'' := JString (js ''a''))) ''query'')
   \<and> network_calls (snd (search_execute (sim_runtime (Some (js ''k3y'')) Failed)
        (cfg_with_base None) (no_params(''query'' := JString (js ''a''))) idle))
      = [build_request \<lparr>apiBase = SAFE_BASE, apiKey = None, defaultSubmolt = None,
             requestTimeoutMs = None\<rparr> (js ''k3y'')
           (search_path (sim_runtime (Some (js ''k3y'')) Failed)
              (no_params(''query'' := JString (js ''a'')))) GET]"
proof -
  have b: "absent_or_blank (JString (js '' ''))"
    by (simp add: absent_or_blank_def trim_def WhiteSpace_def js_def)
  have n: "\<not> absent_or_blank (JString (js ''a''))"
    by (simp add: absent_or_blank_def trim_def WhiteSpace_def js_def)
  have i: "network_calls idle = []"
    by (simp add: idle_def)
  show ?thesis
    using search_rejects_exactly_blank_query
      [of "no_params(''query'' := JString (js '' ''))" "sim_runtime (Some (js ''k3y'')) Failed"
          "cfg_with_base None" idle]
      search_rejects_exactly_blank_query
      [of "no_params(''query'' := JString (js ''a''))" "sim_runtime (Some (js ''k3y'')) Failed"
          "cfg_with_base None" idle]
    by (simp add: b n i getCfg_default getApiKey_sim)
qed

subsection \<open>\<open>moltbook_post\<close>: the checks of the title and the content\<close>

lemma post_title_empty_iff:
  "post_title params = [] \<longleftrightarrow> absent_or_blank (params ''title'')"
  by (simp add: post_title_def absent_or_blank_def split: jsval.splits)

lemma not_truthy_trimmed_iff:
  "\<not> truthy_str (trimmed_string v) \<longleftrightarrow> absent_or_blank v"
  by (simp add: truthy_str_def trimmed_string_def absent_or_blank_def split: jsval.splits)

text \<open>
  Claim C6, as the specification states it, says that \<open>execute\<close> of \<open>moltbook_post\<close> fails
  with \<open>InvalidArgument\<close> on every invocation with a blank title. \<open>execute\<close> resolves
  the configuration first: with a base URL that fails the allow-list check, a blank title
  fails with \<open>UnsafeEndpoint\<close>.
\<close>

theorem post_unsafe_base_before_title:
  "absent_or_blank ((no_params(''title'' := JString (js ''  ''), ''content'' := JString (js ''hello''))) ''title'')
   \<and> post_execute (sim_runtime (Some (js ''k3y'')) Failed)
        (cfg_with_base (Some (js ''http://localhost:8080/api/v1'')))
        (no_params(''title'' := JString (js ''  ''), ''content'' := JString (js ''hello''))) idle
      = (Inl (UnsafeEndpoint unsafe_message), idle)"
proof -
  have r: "resolved_apiBase (plugin_cfg (cfg_with_base (Some (js ''http://localhost:8080/api/v1''))))
             = js ''http://localhost:8080/api/v1''"
    by (simp add: plugin_cfg_with_base resolved_apiBase_def or_str_def trim_def WhiteSpace_def
        js_def)
  have n: "\<not> prefix SAFE_BASE (js ''http://localhost:8080/api/v1'')"
    by (simp add: SAFE_BASE_def js_def)
  have g: "getCfg (cfg_with_base (Some (js ''http://localhost:8080/api/v1'')))
             = Inl (UnsafeEndpoint unsafe_message)"
    by (rule getCfg_unsafe) (simp add: r n)
  have b: "absent_or_blank (JString (js ''  ''))"
    by (simp add: absent_or_blank_def trim_def WhiteSpace_def js_def)
  show ?thesis
    by (simp add: post_execute_def g b)
qed

text \<open>
  Claim C6, amended: on every invocation of \<open>execute\<close> of \<open>moltbook_post\<close> whose
  configured \<open>apiBase\<close> passes the allow-list check, a title that is not a string or is
  blank after trimming fails with \<open>InvalidArgument\<close> (\<open>title is required\<close>) whatever the
  other fields hold, and a title that is not blank with \<open>content\<close> and \<open>url\<close> both absent or
  blank after trimming fails with \<open>InvalidArgument\<close> (\<open>Either content or url is
  required\<close>). When the \<open>apiBase\<close> fails the check, the invocation fails with
  \<open>UnsafeEndpoint\<close> instead. In all three cases nothing changes: no network call is made.
\<close>

theorem post_validation:
  "(\<forall>e. getCfg a = Inl e \<longrightarrow> post_execute rt a params s = (Inl e, s))
   \<and> (\<forall>cfg. getCfg a = Inr cfg \<longrightarrow>
        (absent_or_blank (params ''title'') \<longrightarrow>
           post_execute rt a params s = (Inl (InvalidArgument (js ''title is required'')), s))
        \<and> (\<not> absent_or_blank (params ''title'')
             \<and> absent_or_blank (params ''content'') \<and> absent_or_blank (params ''url'') \<longrightarrow>
           post_execute rt a params s
             = (Inl (InvalidArgument (js ''Either content or url is required'')), s)))"
proof (intro conjI impI allI)
  fix e
  assume "getCfg a = Inl e"
  then show "post_execute rt a params s = (Inl e, s)"
    by (simp add: post_execute_def)
next
  fix cfg
  assume "getCfg a = Inr cfg" and "absent_or_blank (params ''title'')"
  then show "post_execute rt a params s = (Inl (InvalidArgument (js ''title is required'')), s)"
    by (simp add: post_execute_def Let_def post_title_empty_iff)
next
  fix cfg
  assume "getCfg a = Inr cfg"
    and "\<not> absent_or_blank (params ''title'')
             \<and> absent_or_blank (params ''content'') \<and> absent_or_blank (params ''url'')"
  then show "post_execute rt a params s
             = (Inl (InvalidArgument (js ''Either content or url is required'')), s)"
    by (simp add: post_execute_def Let_def post_title_empty_iff post_content_def post_url_def
        not_truthy_trimmed_iff)
qed

text \<open>Under the default configuration: a title of two spaces with content, and a title
  with blank content and no url.\<close>

theorem post_validation_witness:
  "getCfg (cfg_with_base None)
     = Inr \<lparr>apiBase = SAFE_BASE, apiKey = None, defaultSubmolt = None, requestTimeoutMs = None\<rparr>
   \<and> absent_or_blank ((no_params(''title'' := JString (js ''  ''),
                                  ''content'' := JString (js ''hello''))) ''title'')
   \<and> post_execute (sim_runtime (Some (js ''k3y'')) Failed) (cfg_with_base None)
        (no_params(''title'' := JString (js ''  ''), ''content'' := JString (js ''hello''))) idle
      = (Inl (InvalidArgument (js ''title is required'')), idle)
   \<and> \<not> absent_or_blank ((no_params(''title'' := JString (js ''Hello''),
                                  ''content'' := JString (js '' ''))) ''title'')
   \<and> absent_or_blank ((no_params(''title'' := JString (js ''Hello''),
                                  ''content'' := JString (js '' ''))) ''content'')
   \<and> absent_or_blank ((no_params(''title'' := JString (js ''Hello''),
                                  ''content'' := JString (js '' ''))) ''url'')
   \<and> post_execute (sim_runtime (Some (js ''k3y'')) Failed) (cfg_with_base None)
        (no_params(''title'' := JString (js ''Hello''), ''content'' := JString (js '' ''))) idle
      = (Inl (InvalidArgument (js ''Either content or url is required'')), idle)"
proof -
  have b2: "absent_or_blank (JString (js ''  ''))" and b1: "absent_or_blank (JString (js '' ''))"
    and u: "absent_or_blank (no_params ''url'')"
    and n: "\<not> absent_or_blank (JString (js ''Hello''))"
    by (simp_all add: absent_or_blank_def trim_def WhiteSpace_def js_def no_params_def)
  show ?thesis
    using post_validation
      [of "cfg_with_base None" "sim_runtime (Some (js ''k3y'')) Failed"
          "no_params(''title'' := JString (js ''  ''), ''content'' := JString (js ''hello''))" idle]
      post_validation
      [of "cfg_with_base None" "sim_runtime (Some (js ''k3y'')) Failed"
          "no_params(''title'' := JString (js ''Hello''), ''content'' := JString (js '' ''))" idle]
    by (simp add: b1 b2 u n getCfg_default)
qed

subsection \<open>\<open>moltbook_feed\<close>: the limit\<close>

lemma clamp_Finite:
  "Math_max (Finite 1) (Math_min (Finite 50) (Finite q)) = Finite (max 1 (min 50 q))"
  by (auto simp: Math_max_def Math_min_def max_def min_def)

lemma clamp_PosInfinity: "Math_max (Finite 1) (Math_min (Finite 50) PosInfinity) = Finite 50"
  by (simp add: Math_max_def Math_min_def)

lemma clamp_NegInfinity: "Math_max (Finite 1) (Math_min (Finite 50) NegInfinity) = Finite 1"
  by (simp add: Math_max_def Math_min_def)

lemma clamp_NaN: "Math_max (Finite 1) (Math_min (Finite 50) NaN) = NaN"
  by (simp add: Math_max_def Math_min_def)

lemma clamp_range:
  "n \<noteq> NaN \<Longrightarrow> \<exists>q. Math_max (Finite 1) (Math_min (Finite 50) n) = Finite q \<and> 1 \<le> q \<and> q \<le> 50"
  by (cases n) (auto simp: clamp_Finite clamp_PosInfinity clamp_NegInfinity)

lemma feed_path_Inl: "feed_path rt params = Inl e \<Longrightarrow> e = URIError"
  by (auto simp: feed_path_def split: if_splits option.splits)

lemma feed_path_query:
  "feed_path rt params = Inr path \<Longrightarrow>
     \<exists>pre post. (pre = js ''/feed?'' \<or> pre = js ''/posts?'')
       \<and> path = pre @ feed_qs rt params @ post"
  by (auto simp: feed_path_def split: if_splits option.splits)

lemma feed_execute_network_call:
  "getCfg a = Inr cfg \<Longrightarrow> getApiKey rt a = Inr key \<Longrightarrow> feed_path rt params = Inr path \<Longrightarrow>
     network_calls (snd (feed_execute rt a params s))
       = network_calls s @ [build_request cfg key path GET]"
  by (simp add: feed_execute_def tool_result_network_call)

text \<open>
  Claim C7 says that for every numeric \<open>limit\<close> the outgoing query limit of
  \<open>moltbook_feed\<close> is the input clamped to the interval from 1 to 50. NaN is a number
  (\<open>typeof NaN === "number"\<close>), and \<open>Math.min\<close> and \<open>Math.max\<close> return NaN when an argument
  is NaN: called with the limit NaN under the default configuration and a key, \<open>execute\<close>
  computes the limit NaN and sends the request with \<open>limit=NaN\<close>.
\<close>

theorem feed_limit_NaN_not_clamped:
  "feed_limit (no_params(''limit'' := JNumber NaN)) = NaN
   \<and> feed_path (sim_runtime (Some (js ''k3y'')) Failed) (no_params(''limit'' := JNumber NaN))
       = Inr (js ''/feed?sort=new&limit=NaN'')
   \<and> map url (network_calls (snd (feed_execute (sim_runtime (Some (js ''k3y'')) Failed)
        (cfg_with_base None) (no_params(''limit'' := JNumber NaN)) idle)))
       = [js ''https://www.moltbook.com/api/v1/feed?sort=new&limit=NaN'']"
proof -
  let ?rt = "sim_runtime (Some (js ''k3y'')) Failed"
  let ?p = "no_params(''limit'' := JNumber NaN)"
  have l: "feed_limit ?p = NaN"
    by (simp add: feed_limit_def clamp_NaN)
  have p: "feed_path ?rt ?p = Inr (js ''/feed?sort=new&limit=NaN'')"
    by (simp add: feed_path_def feed_qs_def feed_limit_def feed_sort_def feed_personalized_def
        no_params_def clamp_NaN sim_runtime_def sim_String_def js_def)
  have u: "url (build_request \<lparr>apiBase = SAFE_BASE, apiKey = None, defaultSubmolt = None,
                   requestTimeoutMs = None\<rparr> (js ''k3y'') (js ''/feed?sort=new&limit=NaN'') GET)
             = js ''https://www.moltbook.com/api/v1/feed?sort=new&limit=NaN''"
    by (simp add: build_request_def SAFE_BASE_def js_def)
  have n: "network_calls (snd (feed_execute ?rt (cfg_with_base None) ?p idle))
             = [build_request \<lparr>apiBase = SAFE_BASE, apiKey = None, defaultSubmolt = None,
                   requestTimeoutMs = None\<rparr> (js ''k3y'') (js ''/feed?sort=new&limit=NaN'') GET]"
    by (simp add: feed_execute_network_call [OF getCfg_default getApiKey_sim p] idle_def)
  show ?thesis
    by (simp add: l p n u)
qed

text \<open>
  What the clamp does for every other limit: a finite \<open>q\<close> becomes \<open>max 1 (min 50 q)\<close>, so
  500 becomes 50 and 0 becomes 1; the infinities become 50 and 1; when \<open>limit\<close> is absent, or
  not a number, the limit is 10. The limit is the \<open>limit\<close> entry of the query in the path
  that is requested, no value of \<open>limit\<close> makes the call fail with \<open>InvalidArgument\<close>, and
  when the configuration and the key resolve the request is sent with that path.
\<close>

lemma feed_limit_clamped:
  "(\<forall>q. params ''limit'' = JNumber (Finite q) \<longrightarrow>
       feed_limit params = Finite (max 1 (min 50 q)))
   \<and> (params ''limit'' = JNumber PosInfinity \<longrightarrow> feed_limit params = Finite 50)
   \<and> (params ''limit'' = JNumber NegInfinity \<longrightarrow> feed_limit params = Finite 1)
   \<and> (\<forall>n. params ''limit'' = JNumber n \<and> n \<noteq> NaN \<longrightarrow>
         (\<exists>q. feed_limit params = Finite q \<and> 1 \<le> q \<and> q \<le> 50))
   \<and> ((\<forall>n. params ''limit'' \<noteq> JNumber n) \<longrightarrow> feed_limit params = Finite 10)
   \<and> (\<forall>path. feed_path rt params = Inr path \<longrightarrow>
         (\<exists>pre post. (pre = js ''/feed?'' \<or> pre = js ''/posts?'')
            \<and> path = pre
                @ URLSearchParams_toString rt
                    [(js ''sort'', feed_sort params),
                     (js ''limit'', String_of_number rt (feed_limit params))]
                @ post))
   \<and> (\<forall>m. fst (feed_execute rt a params s) \<noteq> Inl (InvalidArgument m))
   \<and> (\<forall>cfg key path.
         getCfg a = Inr cfg \<and> getApiKey rt a = Inr key \<and> feed_path rt params = Inr path \<longrightarrow>
         network_calls (snd (feed_execute rt a params s))
           = network_calls s @ [build_request cfg key path GET])"
proof (intro conjI impI allI)
  fix q
  assume "params ''limit'' = JNumber (Finite q)"
  then show "feed_limit params = Finite (max 1 (min 50 q))"
    by (simp add: feed_limit_def clamp_Finite)
next
  assume "params ''limit'' = JNumber PosInfinity"
  then show "feed_limit params = Finite 50"
    by (simp add: feed_limit_def clamp_PosInfinity)
next
  assume "params ''limit'' = JNumber NegInfinity"
  then show "feed_limit params = Finite 1"
    by (simp add: feed_limit_def clamp_NegInfinity)
next
  fix n
  assume "params ''limit'' = JNumber n \<and> n \<noteq> NaN"
  then show "\<exists>q. feed_limit params = Finite q \<and> 1 \<le> q \<and> q \<le> 50"
    by (simp add: feed_limit_def clamp_range)
next
  assume "\<forall>n. params ''limit'' \<noteq> JNumber n"
  then show "feed_limit params = Finite 10"
    by (cases "params ''limit''") (simp_all add: feed_limit_def)
next
  fix path
  assume "feed_path rt params = Inr path"
  then show "\<exists>pre post. (pre = js ''/feed?'' \<or> pre = js ''/posts?'')
            \<and> path = pre
                @ URLSearchParams_toString rt
                    [(js ''sort'', feed_sort params),
                     (js ''limit'', String_of_number rt (feed_limit params))]
                @ post"
    using feed_path_query [of rt params path] by (simp add: feed_qs_def)
next
  fix m
  show "fst (feed_execute rt a params s) \<noteq> Inl (InvalidArgument m)"
  proof (cases "feed_path rt params")
    case (Inl e)
    then show ?thesis
      by (auto simp: feed_execute_def dest: feed_path_Inl)
  next
    case (Inr path)
    then show ?thesis
      by (simp add: feed_execute_def tool_result_not_InvalidArgument)
  qed
next
  fix cfg key path
  assume "getCfg a = Inr cfg \<and> getApiKey rt a = Inr key \<and> feed_path rt params = Inr path"
  then show "network_calls (snd (feed_execute rt a params s))
           = network_calls s @ [build_request cfg key path GET]"
    by (simp add: feed_execute_network_call)
qed

text \<open>The requests sent for the limits 500 and 0 and for an absent limit.\<close>

lemma feed_limit_clamped_examples:
  "map url (network_calls (snd (feed_execute (sim_runtime (Some (js ''k3y'')) Failed)
        (cfg_with_base None) (no_params(''limit'' := JNumber (Finite 500))) idle)))
     = [js ''https://www.moltbook.com/api/v1/feed?sort=new&limit=50'']
   \<and> map url (network_calls (snd (feed_execute (sim_runtime (Some (js ''k3y'')) Failed)
        (cfg_with_base None) (no_params(''limit'' := JNumber (Finite 0))) idle)))
     = [js ''https://www.moltbook.com/api/v1/feed?sort=new&limit=1'']
   \<and> map url (network_calls (snd (feed_execute (sim_runtime (Some (js ''k3y'')) Failed)
        (cfg_with_base None) no_params idle)))
     = [js ''https://www.moltbook.com/api/v1/feed?sort=new&limit=10'']"
proof -
  let ?rt = "sim_runtime (Some (js ''k3y'')) Failed"
  have p: "feed_path ?rt (no_params(''limit'' := JNumber (Finite 500)))
             = Inr (js ''/feed?sort=new&limit=50'')"
    "feed_path ?rt (no_params(''limit'' := JNumber (Finite 0)))
             = Inr (js ''/feed?sort=new&limit=1'')"
    "feed_path ?rt no_params = Inr (js ''/feed?sort=new&limit=10'')"
    by (simp_all add: feed_path_def feed_qs_def feed_limit_def feed_sort_def
        feed_personalized_def no_params_def clamp_Finite sim_runtime_def sim_String_def
        decimal.simps js_def)
  have u: "url (build_request \<lparr>apiBase = SAFE_BASE, apiKey = None, defaultSubmolt = None,
                   requestTimeoutMs = None\<rparr> (js ''k3y'') (js x) GET)
             = js (''https://www.moltbook.com/api/v1'' @ x)" for x
    by (simp add: build_request_def SAFE_BASE_def js_def)
  show ?thesis
    by (simp add: feed_execute_network_call [OF getCfg_default getApiKey_sim] p u idle_def)
qed

subsection \<open>\<open>moltbook_feed\<close>: the routing\<close>

lemma feed_qs_submolt: "feed_qs rt (params(''submolt'' := v)) = feed_qs rt params"
  by (simp add: feed_qs_def feed_sort_def feed_limit_def)

lemma feed_submolt_empty_iff:
  "feed_submolt params = [] \<longleftrightarrow> absent_or_blank (params ''submolt'')"
  by (simp add: feed_submolt_def absent_or_blank_def split: jsval.splits)

lemma feed_sort_cases:
  "(\<forall>x. params ''sort'' = JString x \<longrightarrow> feed_sort params = x)
   \<and> ((\<forall>x. params ''sort'' \<noteq> JString x) \<longrightarrow> feed_sort params = js ''new'')"
  by (cases "params ''sort''") (simp_all add: feed_sort_def)

text \<open>
  Claim C8: the query of every \<open>moltbook_feed\<close> request has the entries \<open>sort\<close> and
  \<open>limit\<close>: \<open>sort\<close> is the caller's \<open>sort\<close> when that is a string and \<open>new\<close> otherwise;
  \<open>limit\<close> is the caller's limit clamped to the interval from 1 to 50 when that is a
  finite number or an infinity, and 10 when the caller gives no number. When \<open>personalized\<close> is anything but false (so when it is true or
  omitted), the path requested is the personalized feed path with that query, and it is the
  same whatever \<open>submolt\<close> holds. When \<open>personalized\<close> is false, the path is the general
  posts path with that query, followed by a \<open>submolt\<close> parameter (the trimmed value,
  URI-encoded) exactly when \<open>submolt\<close> is a string that is not blank; where
  \<open>encodeURIComponent\<close> throws, the invocation fails and no request is made. When the
  configuration and the key resolve, the request goes to the base URL followed by that path.
\<close>

theorem feed_routing:
  "\<exists>srt lim.
     (\<forall>x. params ''sort'' = JString x \<longrightarrow> srt = x)
   \<and> ((\<forall>x. params ''sort'' \<noteq> JString x) \<longrightarrow> srt = js ''new'')
   \<and> (\<forall>q. params ''limit'' = JNumber (Finite q) \<longrightarrow> lim = Finite (max 1 (min 50 q)))
   \<and> (params ''limit'' = JNumber PosInfinity \<longrightarrow> lim = Finite 50)
   \<and> (params ''limit'' = JNumber NegInfinity \<longrightarrow> lim = Finite 1)
   \<and> ((\<forall>n. params ''limit'' \<noteq> JNumber n) \<longrightarrow> lim = Finite 10)
   \<and> (params ''personalized'' \<noteq> JBoolean False \<longrightarrow>
        feed_path rt params
          = Inr (js ''/feed?''
                 @ URLSearchParams_toString rt
                     [(js ''sort'', srt), (js ''limit'', String_of_number rt lim)])
        \<and> (\<forall>v. feed_path rt (params(''submolt'' := v)) = feed_path rt params))
   \<and> (params ''personalized'' = JBoolean False \<longrightarrow>
        (absent_or_blank (params ''submolt'') \<longrightarrow>
           feed_path rt params
             = Inr (js ''/posts?''
                    @ URLSearchParams_toString rt
                        [(js ''sort'', srt), (js ''limit'', String_of_number rt lim)]))
        \<and> (\<forall>x enc. params ''submolt'' = JString x \<and> trim x \<noteq> []
               \<and> encodeURIComponent rt (trim x) = Some enc \<longrightarrow>
             feed_path rt params
               = Inr (js ''/posts?''
                      @ URLSearchParams_toString rt
                          [(js ''sort'', srt), (js ''limit'', String_of_number rt lim)]
                      @ js ''&submolt='' @ enc))
        \<and> (\<forall>x. params ''submolt'' = JString x \<and> trim x \<noteq> []
               \<and> encodeURIComponent rt (trim x) = None \<longrightarrow>
             feed_execute rt a params s = (Inl URIError, s)))
   \<and> (\<forall>cfg key path.
         getCfg a = Inr cfg \<and> getApiKey rt a = Inr key \<and> feed_path rt params = Inr path \<longrightarrow>
         map url (network_calls (snd (feed_execute rt a params s)))
           = map url (network_calls s) @ [apiBase cfg @ path])"
proof -
  let ?q = "URLSearchParams_toString rt
              [(js ''sort'', feed_sort params),
               (js ''limit'', String_of_number rt (feed_limit params))]"
  have q: "feed_qs rt params = ?q"
    by (simp add: feed_qs_def)
  have s1: "\<forall>x. params ''sort'' = JString x \<longrightarrow> feed_sort params = x"
    and s2: "(\<forall>x. params ''sort'' \<noteq> JString x) \<longrightarrow> feed_sort params = js ''new''"
    using feed_sort_cases [of params] by simp_all
  have l1: "\<forall>q. params ''limit'' = JNumber (Finite q) \<longrightarrow>
              feed_limit params = Finite (max 1 (min 50 q))"
    by (simp add: feed_limit_def clamp_Finite)
  have l2: "params ''limit'' = JNumber PosInfinity \<longrightarrow> feed_limit params = Finite 50"
    by (simp add: feed_limit_def clamp_PosInfinity)
  have l3: "params ''limit'' = JNumber NegInfinity \<longrightarrow> feed_limit params = Finite 1"
    by (simp add: feed_limit_def clamp_NegInfinity)
  have l4: "(\<forall>n. params ''limit'' \<noteq> JNumber n) \<longrightarrow> feed_limit params = Finite 10"
    by (cases "params ''limit''") (simp_all add: feed_limit_def)
  have p1: "params ''personalized'' \<noteq> JBoolean False \<longrightarrow>
        feed_path rt params = Inr (js ''/feed?'' @ ?q)
        \<and> (\<forall>v. feed_path rt (params(''submolt'' := v)) = feed_path rt params)"
    by (auto simp: feed_path_def feed_personalized_def feed_qs_submolt q)
  have p2: "params ''personalized'' = JBoolean False \<longrightarrow>
        (absent_or_blank (params ''submolt'') \<longrightarrow>
           feed_path rt params = Inr (js ''/posts?'' @ ?q))"
    by (simp add: feed_path_def feed_personalized_def feed_submolt_empty_iff q)
  have p3: "params ''personalized'' = JBoolean False \<longrightarrow>
        (\<forall>x enc. params ''submolt'' = JString x \<and> trim x \<noteq> []
               \<and> encodeURIComponent rt (trim x) = Some enc \<longrightarrow>
             feed_path rt params = Inr (js ''/posts?'' @ ?q @ js ''&submolt='' @ enc))"
    by (simp add: feed_path_def feed_personalized_def feed_submolt_def q)
  have p4: "params ''personalized'' = JBoolean False \<longrightarrow>
        (\<forall>x. params ''submolt'' = JString x \<and> trim x \<noteq> []
               \<and> encodeURIComponent rt (trim x) = None \<longrightarrow>
             feed_execute rt a params s = (Inl URIError, s))"
    by (simp add: feed_execute_def feed_path_def feed_personalized_def feed_submolt_def)
  have n: "\<forall>cfg key path.
         getCfg a = Inr cfg \<and> getApiKey rt a = Inr key \<and> feed_path rt params = Inr path \<longrightarrow>
         map url (network_calls (snd (feed_execute rt a params s)))
           = map url (network_calls s) @ [apiBase cfg @ path]"
    by (simp add: feed_execute_network_call build_request_def)
  show ?thesis
    by (rule exI [of _ "feed_sort params"], rule exI [of _ "feed_limit params"])
       (use s1 s2 l1 l2 l3 l4 p1 p2 p3 p4 n in blast)
qed

text \<open>With \<open>sort="hot"\<close>, \<open>limit=5\<close> and \<open>submolt="cats"\<close>: \<open>personalized=false\<close> requests the
  general posts path with the three parameters, \<open>personalized=true\<close> the feed path with
  \<open>sort\<close> and \<open>limit\<close> only. With only \<open>submolt="cats"\<close> given, the feed path with the
  defaults; with \<open>personalized=false\<close> and a blank \<open>submolt\<close>, the posts path with the
  defaults.\<close>

theorem feed_routing_witness:
  "feed_path (sim_runtime (Some (js ''k3y'')) Failed)
        (no_params(''personalized'' := JBoolean False, ''sort'' := JString (js ''hot''),
           ''limit'' := JNumber (Finite 5), ''submolt'' := JString (js ''cats'')))
       = Inr (js ''/posts?sort=hot&limit=5&submolt=cats'')
   \<and> feed_path (sim_runtime (Some (js ''k3y'')) Failed)
        (no_params(''personalized'' := JBoolean True, ''sort'' := JString (js ''hot''),
           ''limit'' := JNumber (Finite 5), ''submolt'' := JString (js ''cats'')))
       = Inr (js ''/feed?sort=hot&limit=5'')
   \<and> feed_path (sim_runtime (Some (js ''k3y'')) Failed)
        (no_params(''submolt'' := JString (js ''cats'')))
       = Inr (js ''/feed?sort=new&limit=10'')
   \<and> feed_path (sim_runtime (Some (js ''k3y'')) Failed)
        (no_params(''personalized'' := JBoolean False, ''submolt'' := JString (js '' '')))
       = Inr (js ''/posts?sort=new&limit=10'')
   \<and> getCfg (cfg_with_base None)
       = Inr \<lparr>apiBase = SAFE_BASE, apiKey = None, defaultSubmolt = None, requestTimeoutMs = None\<rparr>
   \<and> getApiKey (sim_runtime (Some (js ''k3y'')) Failed) (cfg_with_base None) = Inr (js ''k3y'')
   \<and> map url (network_calls (snd (feed_execute (sim_runtime (Some (js ''k3y'')) Failed)
        (cfg_with_base None)
        (no_params(''personalized'' := JBoolean False, ''sort'' := JString (js ''hot''),
           ''limit'' := JNumber (Finite 5), ''submolt'' := JString (js ''cats'')))
        idle)))
       = [js ''https://www.moltbook.com/api/v1/posts?sort=hot&limit=5&submolt=cats'']"
proof -
  let ?rt = "sim_runtime (Some (js ''k3y'')) Failed"
  let ?p1 = "no_params(''personalized'' := JBoolean False, ''sort'' := JString (js ''hot''),
           ''limit'' := JNumber (Finite 5), ''submolt'' := JString (js ''cats''))"
  let ?p2 = "no_params(''personalized'' := JBoolean True, ''sort'' := JString (js ''hot''),
           ''limit'' := JNumber (Finite 5), ''submolt'' := JString (js ''cats''))"
  let ?p3 = "no_params(''submolt'' := JString (js ''cats''))"
  let ?p4 = "no_params(''personalized'' := JBoolean False, ''submolt'' := JString (js '' ''))"
  have t: "trim (js ''cats'') = js ''cats''" and c: "js ''cats'' \<noteq> []"
    and b: "absent_or_blank (JString (js '' ''))"
    by (simp_all add: trim_def WhiteSpace_def js_def absent_or_blank_def)
  have e: "encodeURIComponent ?rt (js ''cats'') = Some (js ''cats'')"
    by (simp add: sim_runtime_def)
  have q: "URLSearchParams_toString ?rt
             [(js ''sort'', js ''hot''), (js ''limit'', String_of_number ?rt (Finite 5))]
           = js ''sort=hot&limit=5''"
    "URLSearchParams_toString ?rt
             [(js ''sort'', js ''new''), (js ''limit'', String_of_number ?rt (Finite 10))]
           = js ''sort=new&limit=10''"
    by (simp_all add: sim_runtime_def sim_String_def decimal.simps js_def)
  have j: "js ''/posts?'' @ js ''sort=hot&limit=5'' @ js ''&submolt='' @ js ''cats''
             = js ''/posts?sort=hot&limit=5&submolt=cats''"
      "js ''/feed?'' @ js ''sort=hot&limit=5'' = js ''/feed?sort=hot&limit=5''"
      "js ''/feed?'' @ js ''sort=new&limit=10'' = js ''/feed?sort=new&limit=10''"
      "js ''/posts?'' @ js ''sort=new&limit=10'' = js ''/posts?sort=new&limit=10''"
      "SAFE_BASE @ js ''/posts?sort=hot&limit=5&submolt=cats''
         = js ''https://www.moltbook.com/api/v1/posts?sort=hot&limit=5&submolt=cats''"
    by (simp_all add: js_def SAFE_BASE_def)
  have i: "network_calls idle = []"
    by (simp add: idle_def)
  have v1: "?p1 ''personalized'' = JBoolean False" "?p1 ''sort'' = JString (js ''hot'')"
      "?p1 ''limit'' = JNumber (Finite 5)" "?p1 ''submolt'' = JString (js ''cats'')"
    and v2: "?p2 ''personalized'' \<noteq> JBoolean False" "?p2 ''sort'' = JString (js ''hot'')"
      "?p2 ''limit'' = JNumber (Finite 5)"
    by (simp_all add: no_params_def)
  have f1: "feed_path ?rt ?p1 = Inr (js ''/posts?sort=hot&limit=5&submolt=cats'')"
    using feed_routing [of ?p1 ?rt "cfg_with_base None" idle]
    by (elim exE conjE) (simp add: v1 t c e q j)
  have u1: "map url (network_calls (snd (feed_execute ?rt (cfg_with_base None) ?p1 idle)))
      = [js ''https://www.moltbook.com/api/v1/posts?sort=hot&limit=5&submolt=cats'']"
    using feed_routing [of ?p1 ?rt "cfg_with_base None" idle]
    by (elim exE conjE) (simp add: f1 getCfg_default getApiKey_sim i j)
  have f2: "feed_path ?rt ?p2 = Inr (js ''/feed?sort=hot&limit=5'')"
    using feed_routing [of ?p2 ?rt "cfg_with_base None" idle]
    by (elim exE conjE) (simp add: v2 q j)
  have f3: "feed_path ?rt ?p3 = Inr (js ''/feed?sort=new&limit=10'')"
    using feed_routing [of ?p3 ?rt "cfg_with_base None" idle]
    by (elim exE conjE) (simp add: no_params_def q j)
  have f4: "feed_path ?rt ?p4 = Inr (js ''/posts?sort=new&limit=10'')"
    using feed_routing [of ?p4 ?rt "cfg_with_base None" idle]
    by (elim exE conjE) (simp add: no_params_def b q j)
  show ?thesis
    using f1 f2 f3 f4 u1 getCfg_default getApiKey_sim [of Failed]
    by simp
qed

section \<open>Properties of the response handling\<close>

text \<open>
  Claim C4, as the specification states it, says that every success response whose body is
  not valid JSON gives \<open>{raw: text}\<close>. The empty text is not valid JSON
  (\<open>JSON.parse("")\<close> throws), and \<open>callMoltbook\<close> does not parse an empty body: it returns
  \<open>null\<close>.
\<close>

theorem empty_body_is_null:
  "JSON_parse (sim_runtime (Some (js ''k3y''))
       (Responded \<lparr>status = 200, resp_headers = [], body_text = []\<rparr>)) [] = None
   \<and> ok \<lparr>status = 200, resp_headers = [], body_text = []\<rparr>
   \<and> fst (callMoltbook (sim_runtime (Some (js ''k3y''))
          (Responded \<lparr>status = 200, resp_headers = [], body_text = []\<rparr>))
        (cfg_with_base None) (js ''/agents/me'') GET idle) = Inr JNull
   \<and> JNull \<noteq> JObject [(js ''raw'', JString [])]"
proof -
  let ?res = "\<lparr>status = 200, resp_headers = [], body_text = []\<rparr>"
  let ?rt = "sim_runtime (Some (js ''k3y'')) (Responded ?res)"
  have f: "fetch ?rt (build_request \<lparr>apiBase = SAFE_BASE, apiKey = None, defaultSubmolt = None,
             requestTimeoutMs = None\<rparr> (js ''k3y'') (js ''/agents/me'') GET) = Responded ?res"
    by (simp add: sim_runtime_def)
  have h: "handle_response ?rt ?res = Inr JNull"
    by (simp add: handle_response_def parse_body_def ok_def)
  show ?thesis
    by (simp add: callMoltbook_responded [OF getCfg_default getApiKey_sim f] h)
       (simp add: sim_runtime_def ok_def)
qed

text \<open>
  Claim C4, amended: for every upstream response with a success status whose body text is
  not valid JSON, the bridge call succeeds; it returns \<open>{raw: text}\<close> with the original body
  text when the body is not empty, and \<open>null\<close> when the body is empty.
\<close>

theorem non_json_body_is_wrapped:
  "getCfg a = Inr cfg \<Longrightarrow> getApiKey rt a = Inr key \<Longrightarrow>
   fetch rt (build_request cfg key path init) = Responded res \<Longrightarrow>
   ok res \<Longrightarrow> JSON_parse rt (body_text res) = None \<Longrightarrow>
     fst (callMoltbook rt a path init s)
       = (if body_text res = [] then Inr JNull
          else Inr (JObject [(js ''raw'', JString (body_text res))]))"
  by (simp add: callMoltbook_responded handle_response_def parse_body_def)

text \<open>A simulated upstream that answers 200 with an HTML body.\<close>

theorem non_json_body_is_wrapped_witness:
  "getCfg (cfg_with_base None)
     = Inr \<lparr>apiBase = SAFE_BASE, apiKey = None, defaultSubmolt = None, requestTimeoutMs = None\<rparr>
   \<and> getApiKey (sim_runtime (Some (js ''k3y''))
          (Responded \<lparr>status = 200, resp_headers = [], body_text = js ''<html>oops</html>''\<rparr>))
        (cfg_with_base None) = Inr (js ''k3y'')
   \<and> ok \<lparr>status = 200, resp_headers = [], body_text = js ''<html>oops</html>''\<rparr>
   \<and> JSON_parse (sim_runtime (Some (js ''k3y''))
          (Responded \<lparr>status = 200, resp_headers = [], body_text = js ''<html>oops</html>''\<rparr>))
        (js ''<html>oops</html>'') = None
   \<and> fst (callMoltbook (sim_runtime (Some (js ''k3y''))
          (Responded \<lparr>status = 200, resp_headers = [], body_text = js ''<html>oops</html>''\<rparr>))
        (cfg_with_base None) (js ''/agents/me'') GET idle)
       = Inr (JObject [(js ''raw'', JString (js ''<html>oops</html>''))])"
proof -
  let ?res = "\<lparr>status = 200, resp_headers = [], body_text = js ''<html>oops</html>''\<rparr>"
  let ?rt = "sim_runtime (Some (js ''k3y'')) (Responded ?res)"
  have f: "fetch ?rt (build_request \<lparr>apiBase = SAFE_BASE, apiKey = None, defaultSubmolt = None,
             requestTimeoutMs = None\<rparr> (js ''k3y'') (js ''/agents/me'') GET) = Responded ?res"
    by (simp add: sim_runtime_def)
  have o: "ok ?res"
    by (simp add: ok_def)
  have p: "JSON_parse ?rt (body_text ?res) = None"
    by (simp add: sim_runtime_def)
  have n: "js ''<html>oops</html>'' \<noteq> []"
    by (simp add: js_def)
  show ?thesis
    using non_json_body_is_wrapped [OF getCfg_default getApiKey_sim f o p, of idle] o p n
    by (simp add: getCfg_default getApiKey_sim)
qed

subsection \<open>The message of an upstream error\<close>

lemma sublist_mid: "sublist x (p @ x @ q)"
  by (rule sublist_appendI)

lemma lower_retry_after: "map ascii_lower (js ''retry-after'') = js ''retry-after''"
  by (simp add: js_def ascii_lower_def)

lemma getApiKey_json:
  "getApiKey (json_runtime (Some (js ''k3y'')) out) (cfg_with_base None) = Inr (js ''k3y'')"
  by (simp add: getApiKey_def getCfg_default json_runtime_def sim_runtime_def or_str_def
      trim_def WhiteSpace_def js_def)

text \<open>
  Claim C5: for every upstream response whose status is not a success status, the bridge
  raises an \<open>UpstreamError\<close> whose message is \<open>MoltBook API\<close>, the status code, the
  detail and a suffix. The detail is the \<open>error\<close> field of the parsed body when the body
  parses to an object whose \<open>error\<close> field is a string; else it is the serialised parsed
  body, which is \<open>null\<close> for an empty body and \<open>{raw: text}\<close> for a body that does not
  parse. The suffix is \<open>(retry-after=\<dots>s)\<close> with the value of the \<open>retry-after\<close> header
  (its name in any case) when the response has one that is not empty, and nothing
  otherwise. So the message includes the status code, the detail and the header's value.
\<close>

theorem upstream_error_message:
  assumes "getCfg a = Inr cfg" and "getApiKey rt a = Inr key"
    and "fetch rt (build_request cfg key path init) = Responded res"
    and "\<not> ok res"
  shows "\<exists>msg detail suffix.
     fst (callMoltbook rt a path init s) = Inl (UpstreamError msg)
     \<and> msg = js ''MoltBook API '' @ decimal (status res) @ js '': '' @ detail @ suffix
     \<and> (\<forall>kvs e. body_text res \<noteq> [] \<and> JSON_parse rt (body_text res) = Some (JObject kvs)
            \<and> map_of kvs (js ''error'') = Some (JString e) \<longrightarrow> detail = e)
     \<and> (\<forall>v. body_text res \<noteq> [] \<and> JSON_parse rt (body_text res) = Some v
            \<and> (\<forall>kvs e. v = JObject kvs \<longrightarrow> map_of kvs (js ''error'') \<noteq> Some (JString e))
          \<longrightarrow> detail = JSON_stringify rt v)
     \<and> (body_text res \<noteq> [] \<and> JSON_parse rt (body_text res) = None \<longrightarrow>
          detail = JSON_stringify rt (JObject [(js ''raw'', JString (body_text res))]))
     \<and> (body_text res = [] \<longrightarrow> detail = JSON_stringify rt JNull)
     \<and> (\<forall>k v. filter (\<lambda>h. map ascii_lower (fst h) = js ''retry-after'') (resp_headers res)
                 = [(k, v)] \<and> v \<noteq> [] \<longrightarrow>
           suffix = js '' (retry-after='' @ v @ js ''s)'')
     \<and> (filter (\<lambda>h. map ascii_lower (fst h) = js ''retry-after'') (resp_headers res) = []
          \<longrightarrow> suffix = [])
     \<and> (\<forall>v. headers_get res (js ''retry-after'') = Some v \<and> v \<noteq> [] \<longrightarrow>
           suffix = js '' (retry-after='' @ v @ js ''s)'')
     \<and> (headers_get res (js ''retry-after'') = None
          \<or> headers_get res (js ''retry-after'') = Some [] \<longrightarrow> suffix = [])
     \<and> sublist (decimal (status res)) msg
     \<and> sublist detail msg
     \<and> (\<forall>v. headers_get res (js ''retry-after'') = Some v \<longrightarrow> sublist v msg)"
proof -
  let ?t = "body_text res"
  let ?data = "parse_body rt ?t"
  let ?detail = "case opt_member ?data (js ''error'') of
                   JString e \<Rightarrow> e | _ \<Rightarrow> JSON_stringify rt ?data"
  let ?suffix = "case headers_get res (js ''retry-after'') of
                   None \<Rightarrow> []
                 | Some v \<Rightarrow> if v \<noteq> [] then js '' (retry-after='' @ v @ js ''s)'' else []"
  let ?msg = "js ''MoltBook API '' @ decimal (status res) @ js '': '' @ ?detail @ ?suffix"
  let ?hs = "filter (\<lambda>h. map ascii_lower (fst h) = js ''retry-after'') (resp_headers res)"
  have r: "fst (callMoltbook rt a path init s) = Inl (UpstreamError ?msg)"
    using assms by (simp add: callMoltbook_responded handle_response_def Let_def)
  have d1: "\<forall>kvs e. ?t \<noteq> [] \<and> JSON_parse rt ?t = Some (JObject kvs)
            \<and> map_of kvs (js ''error'') = Some (JString e) \<longrightarrow> ?detail = e"
    by (simp add: parse_body_def opt_member_def)
  have d2: "\<forall>v. ?t \<noteq> [] \<and> JSON_parse rt ?t = Some v
            \<and> (\<forall>kvs e. v = JObject kvs \<longrightarrow> map_of kvs (js ''error'') \<noteq> Some (JString e))
          \<longrightarrow> ?detail = JSON_stringify rt v"
  proof (intro allI impI)
    fix v
    assume h: "?t \<noteq> [] \<and> JSON_parse rt ?t = Some v
            \<and> (\<forall>kvs e. v = JObject kvs \<longrightarrow> map_of kvs (js ''error'') \<noteq> Some (JString e))"
    then have p: "?data = v"
      by (simp add: parse_body_def)
    from h have "\<forall>e. opt_member v (js ''error'') \<noteq> JString e"
      by (cases v) (auto simp: opt_member_def split: option.splits)
    then show "?detail = JSON_stringify rt v"
      unfolding p by (cases "opt_member v (js ''error'')") simp_all
  qed
  have ne: "js ''raw'' \<noteq> js ''error''"
    by (simp add: js_def)
  have d3: "?t \<noteq> [] \<and> JSON_parse rt ?t = None \<longrightarrow>
          ?detail = JSON_stringify rt (JObject [(js ''raw'', JString ?t)])"
    using ne by (simp add: parse_body_def opt_member_def)
  have d4: "?t = [] \<longrightarrow> ?detail = JSON_stringify rt JNull"
    by (simp add: parse_body_def opt_member_def)
  have hv: "header_values res (js ''retry-after'') = map snd ?hs"
    by (simp add: header_values_def lower_retry_after)
  have s1: "\<forall>k v. ?hs = [(k, v)] \<and> v \<noteq> [] \<longrightarrow> ?suffix = js '' (retry-after='' @ v @ js ''s)''"
    by (simp add: headers_get_def hv)
  have s2: "?hs = [] \<longrightarrow> ?suffix = []"
    by (simp add: headers_get_def hv)
  have s3: "\<forall>v. headers_get res (js ''retry-after'') = Some v \<and> v \<noteq> [] \<longrightarrow>
              ?suffix = js '' (retry-after='' @ v @ js ''s)''"
    by simp
  have s4: "headers_get res (js ''retry-after'') = None
          \<or> headers_get res (js ''retry-after'') = Some [] \<longrightarrow> ?suffix = []"
    by auto
  have c1: "sublist (decimal (status res)) ?msg"
    by (rule sublist_mid)
  have c2: "sublist ?detail ?msg"
    using sublist_appendI [of ?detail "js ''MoltBook API '' @ decimal (status res) @ js '': ''" ?suffix]
    by simp
  have c3: "\<forall>v. headers_get res (js ''retry-after'') = Some v \<longrightarrow> sublist v ?msg"
  proof (intro allI impI)
    fix v
    assume h: "headers_get res (js ''retry-after'') = Some v"
    show "sublist v ?msg"
    proof (cases "v = []")
      case True
      then show ?thesis by simp
    next
      case False
      have "sublist v ((js ''MoltBook API '' @ decimal (status res) @ js '': '' @ ?detail
               @ js '' (retry-after='') @ v @ js ''s)'')"
        by (rule sublist_appendI)
      with h False show ?thesis by simp
    qed
  qed
  from r d1 d2 d3 d4 s1 s2 s3 s4 c1 c2 c3 show ?thesis
    by blast
qed

text \<open>A simulated upstream that answers 429 with the header \<open>Retry-After: 30\<close> and the body
  \<open>{"error":"rate limited"}\<close>: the message contains \<open>429\<close>, the \<open>error\<close> field and
  \<open>retry-after=30s\<close>. One that answers 500 with an HTML body and no such header: the detail
  is the serialised \<open>{raw: text}\<close>.\<close>

theorem upstream_error_message_witness:
  "getCfg (cfg_with_base None)
     = Inr \<lparr>apiBase = SAFE_BASE, apiKey = None, defaultSubmolt = None, requestTimeoutMs = None\<rparr>
   \<and> \<not> ok \<lparr>status = 429,
             resp_headers = [(js ''Content-Type'', js ''application/json''),
                             (js ''Retry-After'', js ''30'')],
             body_text = rate_limited_body\<rparr>
   \<and> fst (callMoltbook (json_runtime (Some (js ''k3y''))
          (Responded \<lparr>status = 429,
             resp_headers = [(js ''Content-Type'', js ''application/json''),
                             (js ''Retry-After'', js ''30'')],
             body_text = rate_limited_body\<rparr>))
        (cfg_with_base None) (js ''/agents/me'') GET idle)
       = Inl (UpstreamError (js ''MoltBook API 429: rate limited (retry-after=30s)''))
   \<and> sublist (js ''429'') (js ''MoltBook API 429: rate limited (retry-after=30s)'')
   \<and> sublist (js ''retry-after=30s'') (js ''MoltBook API 429: rate limited (retry-after=30s)'')
   \<and> \<not> ok \<lparr>status = 500, resp_headers = [], body_text = js ''<html>oops</html>''\<rparr>
   \<and> fst (callMoltbook (json_runtime (Some (js ''k3y''))
          (Responded \<lparr>status = 500, resp_headers = [],
                       body_text = js ''<html>oops</html>''\<rparr>))
        (cfg_with_base None) (js ''/agents/me'') GET idle)
       = Inl (UpstreamError (js ''MoltBook API 500: {'' @ quoted (js ''raw'') @ js '':''
                @ quoted (js ''<html>oops</html>'') @ js ''}''))"
proof -
  let ?cfg = "\<lparr>apiBase = SAFE_BASE, apiKey = None, defaultSubmolt = None,
                requestTimeoutMs = None\<rparr>"
  let ?r1 = "\<lparr>status = 429,
             resp_headers = [(js ''Content-Type'', js ''application/json''),
                             (js ''Retry-After'', js ''30'')],
             body_text = rate_limited_body\<rparr>"
  let ?r2 = "\<lparr>status = 500, resp_headers = [], body_text = js ''<html>oops</html>''\<rparr>"
  let ?rt1 = "json_runtime (Some (js ''k3y'')) (Responded ?r1)"
  let ?rt2 = "json_runtime (Some (js ''k3y'')) (Responded ?r2)"
  have f1: "fetch ?rt1 (build_request ?cfg (js ''k3y'') (js ''/agents/me'') GET) = Responded ?r1"
    and f2: "fetch ?rt2 (build_request ?cfg (js ''k3y'') (js ''/agents/me'') GET) = Responded ?r2"
    by (simp_all add: json_runtime_def sim_runtime_def)
  have o1: "\<not> ok ?r1" and o2: "\<not> ok ?r2"
    by (simp_all add: ok_def)
  have b1: "body_text ?r1 \<noteq> []"
    by (simp add: rate_limited_body_def quoted_def js_def)
  have p1: "JSON_parse ?rt1 (body_text ?r1)
              = Some (JObject [(js ''error'', JString (js ''rate limited''))])"
    by (simp add: json_runtime_def sim_runtime_def json_parse_one_def)
  have m1: "map_of [(js ''error'', JString (js ''rate limited''))] (js ''error'')
              = Some (JString (js ''rate limited''))"
    by simp
  have h1: "filter (\<lambda>h. map ascii_lower (fst h) = js ''retry-after'') (resp_headers ?r1)
              = [(js ''Retry-After'', js ''30'')]"
    by (simp add: js_def ascii_lower_def)
  have n1: "js ''30'' \<noteq> []"
    by (simp add: js_def)
  have b2: "body_text ?r2 \<noteq> []"
    by (simp add: js_def)
  have p2: "JSON_parse ?rt2 (body_text ?r2) = None"
    by (simp add: json_runtime_def sim_runtime_def json_parse_one_def rate_limited_body_def
        quoted_def js_def)
  have h2: "filter (\<lambda>h. map ascii_lower (fst h) = js ''retry-after'') (resp_headers ?r2) = []"
    by simp
  have j2: "JSON_stringify ?rt2 (JObject [(js ''raw'', JString (body_text ?r2))])
              = js ''{'' @ quoted (js ''raw'') @ js '':'' @ quoted (js ''<html>oops</html>'')
                  @ js ''}''"
    by (simp add: json_runtime_def sim_runtime_def json_stringify_flat_def)
  have c1: "js ''MoltBook API '' @ decimal 429 @ js '': '' @ js ''rate limited''
             @ js '' (retry-after='' @ js ''30'' @ js ''s)''
           = js ''MoltBook API 429: rate limited (retry-after=30s)''"
    by (simp add: decimal.simps js_def)
  obtain msg1 detail1 suffix1 where
    r1: "fst (callMoltbook ?rt1 (cfg_with_base None) (js ''/agents/me'') GET idle)
          = Inl (UpstreamError msg1)"
    and m1': "msg1 = js ''MoltBook API '' @ decimal (status ?r1) @ js '': '' @ detail1 @ suffix1"
    and d1: "\<forall>kvs e. body_text ?r1 \<noteq> [] \<and> JSON_parse ?rt1 (body_text ?r1) = Some (JObject kvs)
            \<and> map_of kvs (js ''error'') = Some (JString e) \<longrightarrow> detail1 = e"
    and s1: "\<forall>k v. filter (\<lambda>h. map ascii_lower (fst h) = js ''retry-after'') (resp_headers ?r1)
                 = [(k, v)] \<and> v \<noteq> [] \<longrightarrow> suffix1 = js '' (retry-after='' @ v @ js ''s)''"
    and i1: "sublist (decimal (status ?r1)) msg1"
    using upstream_error_message [OF getCfg_default getApiKey_json f1 o1, of idle]
    by blast
  from d1 b1 p1 m1 have detail1: "detail1 = js ''rate limited''"
    by blast
  from s1 h1 n1 have suffix1: "suffix1 = js '' (retry-after='' @ js ''30'' @ js ''s)''"
    by blast
  from m1' detail1 suffix1 c1
  have msg1: "msg1 = js ''MoltBook API 429: rate limited (retry-after=30s)''"
    by simp
  have i1': "sublist (js ''429'') (js ''MoltBook API 429: rate limited (retry-after=30s)'')"
    using i1 msg1 by (simp add: decimal.simps js_def)
  have i2': "sublist (js ''retry-after=30s'')
               (js ''MoltBook API 429: rate limited (retry-after=30s)'')"
    using sublist_appendI [of "js ''retry-after=30s''" "js ''MoltBook API 429: rate limited (''"
        "js '')''"]
    by (simp add: js_def)
  obtain msg2 detail2 suffix2 where
    r2: "fst (callMoltbook ?rt2 (cfg_with_base None) (js ''/agents/me'') GET idle)
          = Inl (UpstreamError msg2)"
    and m2': "msg2 = js ''MoltBook API '' @ decimal (status ?r2) @ js '': '' @ detail2 @ suffix2"
    and d2: "body_text ?r2 \<noteq> [] \<and> JSON_parse ?rt2 (body_text ?r2) = None \<longrightarrow>
          detail2 = JSON_stringify ?rt2 (JObject [(js ''raw'', JString (body_text ?r2))])"
    and s2: "filter (\<lambda>h. map ascii_lower (fst h) = js ''retry-after'') (resp_headers ?r2) = []
          \<longrightarrow> suffix2 = []"
    using upstream_error_message [OF getCfg_default getApiKey_json f2 o2, of idle]
    by blast
  from d2 b2 p2 j2 have detail2: "detail2 = js ''{'' @ quoted (js ''raw'') @ js '':''
      @ quoted (js ''<html>oops</html>'') @ js ''}''"
    by simp
  from s2 h2 have suffix2: "suffix2 = []"
    by blast
  from m2' detail2 suffix2 have msg2: "msg2 = js ''MoltBook API 500: {'' @ quoted (js ''raw'')
      @ js '':'' @ quoted (js ''<html>oops</html>'') @ js ''}''"
    by (simp add: decimal.simps js_def)
  show ?thesis
    using r1 msg1 o1 i1' i2' r2 msg2 o2 getCfg_default
    by simp
qed

section \<open>The timer of a bridged call\<close>

lemma filter_fresh_timer:
  fixes n :: nat
  assumes "\<forall>t\<in>set ts. fst t < n"
  shows "filter (\<lambda>t. fst t \<noteq> n) ts = ts"
  using assms by (induction ts) auto

text \<open>
  Claim C9: however a bridged call ends, no timer is armed after it that was not armed
  before it: on a config or credential error no timer was set, and on success, on an
  upstream error, on a timeout and on a network failure the timer of the call has been
  cleared. Whenever the handles of the armed timers are below the next handle (as they are
  when every handle comes from \<open>setTimeout\<close>), the timers armed after the call are exactly
  the timers armed before it, and the condition on the handles holds again, so it holds
  along any sequence of calls.
\<close>

theorem timer_always_cleared:
  "set (timers (snd (callMoltbook rt a path init s))) \<subseteq> set (timers s)
   \<and> ((\<forall>t\<in>set (timers s). fst t < next_timer s) \<longrightarrow>
        timers (snd (callMoltbook rt a path init s)) = timers s
        \<and> (\<forall>t\<in>set (timers (snd (callMoltbook rt a path init s))).
              fst t < next_timer (snd (callMoltbook rt a path init s))))"
proof (cases "getCfg a")
  case (Inl e)
  then show ?thesis
    by (simp add: callMoltbook_cfg_error)
next
  case cfg: (Inr cfg)
  show ?thesis
  proof (cases "getApiKey rt a")
    case (Inl e)
    with cfg show ?thesis
      by (simp add: callMoltbook_key_error)
  next
    case (Inr key)
    with cfg show ?thesis
      by (auto simp: callMoltbook_run filter_fresh_timer)
  qed
qed

text \<open>A call made while an earlier timer is armed, against an upstream that answers 200,
  one that answers 500 and one that times out: each time the earlier timer is the only one
  armed afterwards, and the handle of the call's own timer has been used.\<close>

theorem timer_always_cleared_witness:
  "timers busy = [(3, Finite 250)] \<and> next_timer busy = 7
   \<and> callMoltbook (sim_runtime (Some (js ''k3y''))
          (Responded \<lparr>status = 200, resp_headers = [], body_text = []\<rparr>))
        (cfg_with_base None) (js ''/agents/me'') GET busy
       = (Inr JNull,
          busy\<lparr>next_timer := 8,
               network_calls := [build_request \<lparr>apiBase = SAFE_BASE, apiKey = None,
                 defaultSubmolt = None, requestTimeoutMs = None\<rparr> (js ''k3y'')
                 (js ''/agents/me'') GET]\<rparr>)
   \<and> fst (callMoltbook (sim_runtime (Some (js ''k3y''))
          (Responded \<lparr>status = 500, resp_headers = [], body_text = []\<rparr>))
        (cfg_with_base None) (js ''/agents/me'') GET busy)
       = Inl (UpstreamError (js ''MoltBook API 500: null''))
   \<and> timers (snd (callMoltbook (sim_runtime (Some (js ''k3y''))
          (Responded \<lparr>status = 500, resp_headers = [], body_text = []\<rparr>))
        (cfg_with_base None) (js ''/agents/me'') GET busy)) = timers busy
   \<and> fst (callMoltbook (sim_runtime (Some (js ''k3y'')) Aborted)
        (cfg_with_base None) (js ''/agents/me'') GET busy) = Inl Timeout
   \<and> timers (snd (callMoltbook (sim_runtime (Some (js ''k3y'')) Aborted)
        (cfg_with_base None) (js ''/agents/me'') GET busy)) = timers busy"
proof -
  let ?ok = "Responded \<lparr>status = 200, resp_headers = [], body_text = []\<rparr>"
  let ?err = "Responded \<lparr>status = 500, resp_headers = [], body_text = []\<rparr>"
  let ?a = "cfg_with_base None"
  let ?path = "js ''/agents/me''"
  have w: "\<forall>t\<in>set (timers busy). fst t < next_timer busy"
    by (simp add: busy_def)
  have f: "\<And>out req. fetch (sim_runtime (Some (js ''k3y'')) out) req = out"
    by (simp add: sim_runtime_def)
  have s1: "settle (sim_runtime (Some (js ''k3y'')) ?ok) ?ok = Inr JNull"
    by (simp add: settle_def handle_response_def parse_body_def ok_def)
  have s2: "settle (sim_runtime (Some (js ''k3y'')) ?err) ?err
              = Inl (UpstreamError (js ''MoltBook API 500: null''))"
    by (simp add: settle_def handle_response_def parse_body_def ok_def opt_member_def
        headers_get_def header_values_def sim_runtime_def sim_stringify_def decimal.simps
        js_def)
  have s3: "settle (sim_runtime (Some (js ''k3y'')) Aborted) Aborted = Inl Timeout"
    by (simp add: settle_def)
  note t1 =
    conjunct1 [OF mp [OF conjunct2 [OF timer_always_cleared
      [of "sim_runtime (Some (js ''k3y'')) ?ok" ?a ?path GET busy]] w]]
  note t2 =
    conjunct1 [OF mp [OF conjunct2 [OF timer_always_cleared
      [of "sim_runtime (Some (js ''k3y'')) ?err" ?a ?path GET busy]] w]]
  note t3 =
    conjunct1 [OF mp [OF conjunct2 [OF timer_always_cleared
      [of "sim_runtime (Some (js ''k3y'')) Aborted" ?a ?path GET busy]] w]]
  have r1: "callMoltbook (sim_runtime (Some (js ''k3y'')) ?ok) ?a ?path GET busy
       = (Inr JNull,
          busy\<lparr>next_timer := 8,
               network_calls := [build_request \<lparr>apiBase = SAFE_BASE, apiKey = None,
                 defaultSubmolt = None, requestTimeoutMs = None\<rparr> (js ''k3y'') ?path GET]\<rparr>)"
    using t1
    by (simp add: callMoltbook_run [OF getCfg_default getApiKey_sim] f s1 busy_def)
  have r2: "fst (callMoltbook (sim_runtime (Some (js ''k3y'')) ?err) ?a ?path GET busy)
       = Inl (UpstreamError (js ''MoltBook API 500: null''))"
    by (simp add: callMoltbook_run [OF getCfg_default getApiKey_sim] f s2)
  have r3: "fst (callMoltbook (sim_runtime (Some (js ''k3y'')) Aborted) ?a ?path GET busy)
       = Inl Timeout"
    by (simp add: callMoltbook_run [OF getCfg_default getApiKey_sim] f s3)
  have b: "timers busy = [(3, Finite 250)] \<and> next_timer busy = 7"
    by (simp add: busy_def)
  from b r1 r2 t2 r3 t3 show ?thesis
    by blast
qed

end
